theory Spec2Isabelle
  imports Complex_Main
begin

section \<open>Identifiers, JSON values and Python values\<close>

text \<open>
  \<^verbatim>\<open>FILE_ID = str | int\<close> and \<^verbatim>\<open>ITEM_ID = str | int\<close>. Two identifiers are the same
  dictionary key exactly when they are the same string or the same integer.
\<close>

datatype ident = IdStr string | IdInt int

text \<open>
  \<^verbatim>\<open>JSON_ITEM\<close>: what \<^verbatim>\<open>json.load\<close> hands to the engine. \<open>JNull\<close> is Python's \<^verbatim>\<open>None\<close>
  (a JSON \<^verbatim>\<open>null\<close> loads as \<^verbatim>\<open>None\<close>), so the \<^verbatim>\<open>JSON_OBJ|None\<close> argument of the
  deserialisers is a \<open>json\<close> whose "none" is \<open>JNull\<close>. An object is an ordered
  list of string-keyed entries, as a Python \<^verbatim>\<open>dict\<close> is.
\<close>

datatype json =
    JNull
  | JBool bool
  | JInt int
  | JFloat real
  | JStr string
  | JList "json list"
  | JObj "(string \<times> json) list"

text \<open>
  Every \<^verbatim>\<open>raise\<close> of the source and every exception of the built-ins it calls is a
  value. The first group are the \<^verbatim>\<open>RuntimeError\<close>s of \<^verbatim>\<open>config_manager.py\<close>, one
  constructor per raise statement; \<open>UserError\<close> is an exception raised inside a
  callback (factory, serialiser, reconfigure).
\<close>

datatype error =
    PathAssignedTwice ident
  | DuplicateItem ident ident
  | BadDefaultArgs
  | BadDefaultKwargs
  | UnsupportedItemLike
  | MissingFilePaths "ident list"
  | LoadBeforeFinalize
  | SaveBeforeFinalize
  | RequiredFileMissing ident string
  | FileIdMismatch
  | MissingObject
  | NotSerializable
  | KeyError
  | TypeError
  | IndexError
  | AttributeError
  | JSONDecodeError
  | UserError string

text \<open>
  A Python value as the engine can tell values apart: plain data (\<^verbatim>\<open>None\<close>, numbers,
  strings, lists, dicts), which does not inherit from \<^verbatim>\<open>I_ConfigSerializable\<close>, or an
  instance of a class that does, given by its bound \<^verbatim>\<open>config_serialize\<close> method.
\<close>

datatype pyval =
    Plain json
  | Serializable "ident \<Rightarrow> error + json"

abbreviation PyNone :: pyval where
  "PyNone \<equiv> Plain JNull"

text \<open>\<^verbatim>\<open>x == None\<close> / \<^verbatim>\<open>x != None\<close> on a stored value.\<close>

fun is_none :: "pyval \<Rightarrow> bool" where
  "is_none (Plain JNull) = True"
| "is_none _ = False"

section \<open>Dictionaries\<close>

text \<open>
  A Python \<^verbatim>\<open>dict\<close> is an association list in insertion order with distinct keys.
  \<open>dict_set\<close> is \<^verbatim>\<open>d[k] = v\<close>: an existing key keeps its position, a new key goes
  to the end. \<open>setdefault\<close> is \<^verbatim>\<open>d.setdefault(k, v)\<close>, returning the dictionary and
  the value now stored under \<open>k\<close>.
\<close>

primrec dict_set :: "'k \<Rightarrow> 'v \<Rightarrow> ('k \<times> 'v) list \<Rightarrow> ('k \<times> 'v) list" where
  "dict_set k v [] = [(k, v)]"
| "dict_set k v (p # ps) = (if fst p = k then (k, v) # ps else p # dict_set k v ps)"

definition setdefault :: "('k \<times> 'v) list \<Rightarrow> 'k \<Rightarrow> 'v \<Rightarrow> ('k \<times> 'v) list \<times> 'v" where
  "setdefault d k v = (case map_of d k of Some x \<Rightarrow> (d, x) | None \<Rightarrow> (d @ [(k, v)], v))"

section \<open>Destinations: targets and direct entities\<close>

text \<open>
  The owner of a \<^verbatim>\<open>ConfigTarget\<close> is a mutable object shared with the caller, so it is
  a reference into a store. \<^verbatim>\<open>type(self.target.obj) == dict\<close> holds for a \<open>DictRef\<close>
  and fails for an \<open>ObjRef\<close>.
\<close>

datatype owner_ref = DictRef nat | ObjRef nat

text \<open>
  \<^verbatim>\<open>I_ConfigItemFactory.config_deserialize(item_id, json_obj, *args, **kwargs)\<close>: a
  static method, a function of its arguments that returns the built value or raises.
\<close>

type_synonym factory_fn =
  "ident \<Rightarrow> json \<Rightarrow> pyval list \<Rightarrow> (string \<times> pyval) list \<Rightarrow> error + pyval"

record config_target =
  obj :: owner_ref
  attr :: string
  factory :: factory_fn

text \<open>
  An \<^verbatim>\<open>I_ConfigItem\<close> instance: the address of its state (of type \<open>'s\<close>) and the two
  methods of its class. \<^verbatim>\<open>config_reconfig\<close> mutates \<^verbatim>\<open>self\<close>: it returns the new state
  together with its outcome, so a reconfigure that raises may still have changed it.
\<close>

record 's config_item =
  item_addr :: nat
  config_serialize :: "'s \<Rightarrow> ident \<Rightarrow> error + json"
  config_reconfig ::
    "'s \<Rightarrow> ident \<Rightarrow> json \<Rightarrow> pyval list \<Rightarrow> (string \<times> pyval) list \<Rightarrow> (error + unit) \<times> 's"

datatype 's destination = Direct "'s config_item" | Indirect config_target

text \<open>
  \<^verbatim>\<open>ConfigItemTemplate\<close>. \<^verbatim>\<open>default_kwargs\<close> is a \<^verbatim>\<open>dict\<close> whose keys the dataclass does
  not check, so a key is any identifier.
\<close>

record 's item_template =
  target :: "'s destination"
  default_args :: "pyval list"
  default_kwargs :: "(ident \<times> pyval) list"

record 's file_template =
  file_path :: "string option"
  file_required :: bool
  item_templates :: "(ident \<times> 's item_template) list"

record 's manager =
  file_templates :: "(ident \<times> 's file_template) list"
  finalized :: bool

definition init :: "'s manager" where
  "init = \<lparr>file_templates = [], finalized = False\<rparr>"

section \<open>The world outside the manager\<close>

text \<open>
  What load and save read and change: the owners' attributes and keys (\<open>store\<close>), the
  states of the direct entities (\<open>entities\<close>), the files (\<open>disk\<close>) and, in order, the
  warnings sent to the logger and the calls made to factories and to
  \<^verbatim>\<open>config_reconfig\<close> (\<open>trace\<close>). A file holds JSON text, kept as the value
  \<^verbatim>\<open>json.load\<close> returns for it, or something \<^verbatim>\<open>json.load\<close> rejects.
\<close>

text \<open>
  The callbacks are the caller's code. A factory is a function of its arguments, a
  serialiser of the instance and the item id, a reconfigure of the entity's own state
  and its arguments: they may raise, and they do not reach the manager, the owners of
  other destinations or the files. Opening a registered path for writing succeeds.
\<close>

datatype file_content = JsonFile json | OtherFile

datatype event =
    Warning owner_ref string pyval
  | FactoryCall owner_ref string ident json
  | ReconfigCall nat ident json

record 's env =
  store :: "owner_ref \<Rightarrow> string \<Rightarrow> pyval option"
  entities :: "nat \<Rightarrow> 's"
  disk :: "string \<Rightarrow> file_content option"
  trace :: "event list"

text \<open>
  \<^verbatim>\<open>obj.get(attr, None)\<close> on a dict and \<^verbatim>\<open>getattr(obj, attr, None)\<close> on an object.
\<close>

definition owner_get :: "'s env \<Rightarrow> owner_ref \<Rightarrow> string \<Rightarrow> pyval" where
  "owner_get e r a = (case store e r a of None \<Rightarrow> PyNone | Some v \<Rightarrow> v)"

text \<open>\<^verbatim>\<open>obj[attr] = v\<close> on a dict and \<^verbatim>\<open>setattr(obj, attr, v)\<close> on an object.\<close>

definition owner_set :: "owner_ref \<Rightarrow> string \<Rightarrow> pyval \<Rightarrow> 's env \<Rightarrow> 's env" where
  "owner_set r a v e = e\<lparr>store := (store e)(r := (store e r)(a \<mapsto> v))\<rparr>"

definition emit :: "event \<Rightarrow> 's env \<Rightarrow> 's env" where
  "emit ev e = e\<lparr>trace := trace e @ [ev]\<rparr>"

section \<open>ConfigItemTemplate\<close>

text \<open>\<^verbatim>\<open>ConfigItemTemplate._serialize_obj\<close>.\<close>

definition serialize_obj :: "'s item_template \<Rightarrow> ident \<Rightarrow> 's env \<Rightarrow> error + json" where
  "serialize_obj tmpl item_id e =
     (case target tmpl of
        Indirect t \<Rightarrow>
          (let v = owner_get e (obj t) (attr t) in
           if is_none v then Inl MissingObject
           else (case v of
                   Plain _ \<Rightarrow> Inl NotSerializable
                 | Serializable ser \<Rightarrow> ser item_id))
      | Direct c \<Rightarrow> config_serialize c (entities e (item_addr c)) item_id)"

text \<open>
  \<^verbatim>\<open>f(..., **_kwargs)\<close>: a call with a key that is not a string raises \<^verbatim>\<open>TypeError\<close>
  before the callee runs.
\<close>

fun call_kwargs :: "(ident \<times> pyval) list \<Rightarrow> error + (string \<times> pyval) list" where
  "call_kwargs [] = Inr []"
| "call_kwargs ((IdStr s, v) # kws) =
     (case call_kwargs kws of Inl err \<Rightarrow> Inl err | Inr r \<Rightarrow> Inr ((s, v) # r))"
| "call_kwargs ((IdInt n, v) # kws) = Inl TypeError"

text \<open>
  \<^verbatim>\<open>ConfigItemTemplate._deserialize_obj\<close>. For a target the old value is read and the
  warning logged first, then the factory is called, then the result is stored; an
  exception leaves what was done before it.
\<close>

definition deserialize_obj ::
  "'s item_template \<Rightarrow> ident \<Rightarrow> json \<Rightarrow> 's env \<Rightarrow> (error + unit) \<times> 's env" where
  "deserialize_obj tmpl item_id json_obj e =
     (case target tmpl of
        Indirect t \<Rightarrow>
          (let attr_obj = owner_get e (obj t) (attr t);
               e1 = (if \<not> is_none attr_obj then emit (Warning (obj t) (attr t) attr_obj) e else e)
           in case call_kwargs (default_kwargs tmpl) of
                Inl err \<Rightarrow> (Inl err, e1)
              | Inr kwargs \<Rightarrow>
                  (let e2 = emit (FactoryCall (obj t) (attr t) item_id json_obj) e1
                   in case factory t item_id json_obj (default_args tmpl) kwargs of
                        Inl err \<Rightarrow> (Inl err, e2)
                      | Inr v \<Rightarrow> (Inr (), owner_set (obj t) (attr t) v e2)))
      | Direct c \<Rightarrow>
          (if json_obj \<noteq> JNull then
             (case call_kwargs (default_kwargs tmpl) of
                Inl err \<Rightarrow> (Inl err, e)
              | Inr kwargs \<Rightarrow>
                  (let e1 = emit (ReconfigCall (item_addr c) item_id json_obj) e;
                       (r, s') = config_reconfig c (entities e1 (item_addr c)) item_id json_obj
                                   (default_args tmpl) kwargs
                   in (r, e1\<lparr>entities := (entities e1)(item_addr c := s')\<rparr>)))
           else (Inr (), e)))"

section \<open>ConfigManager: registration and finalisation\<close>

definition new_file_template :: "'s file_template" where
  "new_file_template = \<lparr>file_path = None, file_required = False, item_templates = []\<rparr>"

text \<open>\<^verbatim>\<open>ConfigManager.add_file_path\<close>.\<close>

definition add_file_path ::
  "'s manager \<Rightarrow> ident \<Rightarrow> string \<Rightarrow> bool \<Rightarrow> (error + unit) \<times> 's manager" where
  "add_file_path m file_id path required =
     (let (fts, ft) = setdefault (file_templates m) file_id new_file_template;
          m1 = m\<lparr>file_templates := fts, finalized := False\<rparr>
      in if file_path ft \<noteq> None then (Inl (PathAssignedTwice file_id), m1)
         else (Inr (), m1\<lparr>file_templates :=
                 dict_set file_id (ft\<lparr>file_path := Some path, file_required := required\<rparr>) fts\<rparr>))"

text \<open>
  The values \<^verbatim>\<open>add_items\<close> tells apart by \<^verbatim>\<open>type(item_like)\<close>: a
  \<^verbatim>\<open>ConfigItemTemplate\<close>, a \<^verbatim>\<open>ConfigTarget\<close>, an \<^verbatim>\<open>I_ConfigItem\<close>, a \<^verbatim>\<open>tuple\<close>, or
  anything else; and, for the elements of a tuple, a target, an item, a \<^verbatim>\<open>list\<close>, a
  \<^verbatim>\<open>dict\<close> (with keys of any kind), or anything else.
\<close>

datatype 's tuple_elem =
    ElemTarget config_target
  | ElemItem "'s config_item"
  | ElemList "pyval list"
  | ElemDict "(ident \<times> pyval) list"
  | ElemOther

datatype 's item_like =
    LikeTemplate "'s item_template"
  | LikeTarget config_target
  | LikeItem "'s config_item"
  | LikeTuple "'s tuple_elem list"
  | LikeOther

text \<open>
  \<^verbatim>\<open>type(item_like[0]) == ConfigTarget or issubclass(type(item_like[0]), I_ConfigItem)\<close>,
  with the destination when it holds.
\<close>

fun elem_destination :: "'s tuple_elem \<Rightarrow> 's destination option" where
  "elem_destination (ElemTarget t) = Some (Indirect t)"
| "elem_destination (ElemItem c) = Some (Direct c)"
| "elem_destination _ = None"

text \<open>
  The body of the loop of \<^verbatim>\<open>add_items\<close> after the duplicate check: the template
  built from one \<^verbatim>\<open>item_like\<close>, or the exception. An empty tuple raises
  \<^verbatim>\<open>IndexError\<close> at \<^verbatim>\<open>item_like[0]\<close>; a tuple of more than three elements raises
  \<^verbatim>\<open>TypeError\<close> in \<^verbatim>\<open>ConfigItemTemplate(*item_like)\<close>, after both type checks.
\<close>

fun as_template :: "'s item_like \<Rightarrow> error + 's item_template" where
  "as_template (LikeTemplate t) = Inr t"
| "as_template (LikeTarget t) =
     Inr \<lparr>target = Indirect t, default_args = [], default_kwargs = []\<rparr>"
| "as_template (LikeItem c) =
     Inr \<lparr>target = Direct c, default_args = [], default_kwargs = []\<rparr>"
| "as_template (LikeTuple []) = Inl IndexError"
| "as_template (LikeTuple (d # rest)) =
     (case elem_destination d of
        None \<Rightarrow> Inl UnsupportedItemLike
      | Some dst \<Rightarrow>
          (case rest of
             [] \<Rightarrow> Inr \<lparr>target = dst, default_args = [], default_kwargs = []\<rparr>
           | ElemList args # rest1 \<Rightarrow>
               (case rest1 of
                  [] \<Rightarrow> Inr \<lparr>target = dst, default_args = args, default_kwargs = []\<rparr>
                | ElemDict kwargs # rest2 \<Rightarrow>
                    (if rest2 = []
                     then Inr \<lparr>target = dst, default_args = args, default_kwargs = kwargs\<rparr>
                     else Inl TypeError)
                | _ # _ \<Rightarrow> Inl BadDefaultKwargs)
           | _ # _ \<Rightarrow> Inl BadDefaultArgs))"
| "as_template LikeOther = Inl UnsupportedItemLike"

text \<open>
  The loop of \<^verbatim>\<open>add_items\<close> over \<^verbatim>\<open>items.items()\<close>, on the item templates of the
  selected file: an exception leaves the items added before it.
\<close>

fun add_items_loop ::
  "ident \<Rightarrow> (ident \<times> 's item_like) list \<Rightarrow> (ident \<times> 's item_template) list \<Rightarrow>
   (error + unit) \<times> (ident \<times> 's item_template) list" where
  "add_items_loop file_id [] its = (Inr (), its)"
| "add_items_loop file_id ((item_id, item_like) # rest) its =
     (if item_id \<in> fst ` set its then (Inl (DuplicateItem item_id file_id), its)
      else (case as_template item_like of
              Inl err \<Rightarrow> (Inl err, its)
            | Inr tmpl \<Rightarrow> add_items_loop file_id rest (dict_set item_id tmpl its)))"

text \<open>\<^verbatim>\<open>ConfigManager.add_items\<close>.\<close>

definition add_items ::
  "'s manager \<Rightarrow> ident \<Rightarrow> (ident \<times> 's item_like) list \<Rightarrow> (error + unit) \<times> 's manager" where
  "add_items m file_id items =
     (let (fts, ft) = setdefault (file_templates m) file_id new_file_template;
          (r, its) = add_items_loop file_id items (item_templates ft)
      in (r, m\<lparr>file_templates := dict_set file_id (ft\<lparr>item_templates := its\<rparr>) fts,
               finalized := False\<rparr>))"

text \<open>\<^verbatim>\<open>ConfigManager.finalize_layout\<close>.\<close>

definition finalize_layout :: "'s manager \<Rightarrow> (error + unit) \<times> 's manager" where
  "finalize_layout m =
     (let query_result = map fst (filter (\<lambda>(file_id, ft). file_path ft = None) (file_templates m))
      in if length query_result > 0 then (Inl (MissingFilePaths query_result), m)
         else (Inr (), m\<lparr>finalized := True\<rparr>))"

section \<open>ConfigManager: load\<close>

text \<open>
  \<^verbatim>\<open>d[key]\<close> on a loaded JSON value with a string key: \<^verbatim>\<open>KeyError\<close> on a dict without
  the key, \<^verbatim>\<open>TypeError\<close> on anything that is not a dict.
\<close>

fun subscript :: "json \<Rightarrow> string \<Rightarrow> error + json" where
  "subscript (JObj kvs) k = (case map_of kvs k of None \<Rightarrow> Inl KeyError | Some v \<Rightarrow> Inr v)"
| "subscript _ k = Inl TypeError"

text \<open>
  \<^verbatim>\<open>file_items.get(item_id, None)\<close>: the keys of a loaded dict are strings, so an
  integer item id finds nothing; only a dict has \<^verbatim>\<open>get\<close>.
\<close>

fun items_get :: "json \<Rightarrow> ident \<Rightarrow> error + json" where
  "items_get (JObj kvs) (IdStr s) = (case map_of kvs s of None \<Rightarrow> Inr JNull | Some v \<Rightarrow> Inr v)"
| "items_get (JObj kvs) (IdInt n) = Inr JNull"
| "items_get _ item_id = Inl AttributeError"

text \<open>
  \<^verbatim>\<open>file_properties["id"] != file_id\<close> is the negation of Python's \<^verbatim>\<open>==\<close>, under which
  an integer equals the same number as a float and \<^verbatim>\<open>True\<close>/\<^verbatim>\<open>False\<close> equal 1/0.
\<close>

fun id_equals :: "json \<Rightarrow> ident \<Rightarrow> bool" where
  "id_equals (JStr s) (IdStr t) = (s = t)"
| "id_equals (JInt n) (IdInt k) = (n = k)"
| "id_equals (JBool b) (IdInt k) = (k = (if b then 1 else 0))"
| "id_equals (JFloat x) (IdInt k) = (x = of_int k)"
| "id_equals _ _ = False"

text \<open>
  The two loops of \<^verbatim>\<open>_load_config_file\<close> over \<^verbatim>\<open>item_templates.items()\<close>: \<open>look\<close>
  gives the JSON value passed for an item id (always \<^verbatim>\<open>None\<close> in the first loop,
  \<^verbatim>\<open>file_items.get(item_id, None)\<close> in the second).
\<close>

fun load_items ::
  "(ident \<Rightarrow> error + json) \<Rightarrow> (ident \<times> 's item_template) list \<Rightarrow> 's env \<Rightarrow>
   (error + unit) \<times> 's env" where
  "load_items look [] e = (Inr (), e)"
| "load_items look ((item_id, tmpl) # rest) e =
     (case look item_id of
        Inl err \<Rightarrow> (Inl err, e)
      | Inr json_obj \<Rightarrow>
          (case deserialize_obj tmpl item_id json_obj e of
             (Inl err, e') \<Rightarrow> (Inl err, e')
           | (Inr u, e') \<Rightarrow> load_items look rest e'))"

text \<open>
  \<^verbatim>\<open>ConfigManager._load_config_file\<close>. \<^verbatim>\<open>os.path.isfile(None)\<close> raises \<^verbatim>\<open>TypeError\<close>.
\<close>

definition internal_load_config_file ::
  "ident \<Rightarrow> 's file_template \<Rightarrow> 's env \<Rightarrow> (error + unit) \<times> 's env" where
  "internal_load_config_file file_id ft e =
     (case file_path ft of
        None \<Rightarrow> (Inl TypeError, e)
      | Some path \<Rightarrow>
          (case disk e path of
             None \<Rightarrow>
               (if file_required ft then (Inl (RequiredFileMissing file_id path), e)
                else load_items (\<lambda>item_id. Inr JNull) (item_templates ft) e)
           | Some OtherFile \<Rightarrow> (Inl JSONDecodeError, e)
           | Some (JsonFile json_data) \<Rightarrow>
               (case subscript json_data ''properties'' of
                  Inl err \<Rightarrow> (Inl err, e)
                | Inr file_properties \<Rightarrow>
                    (case subscript file_properties ''id'' of
                       Inl err \<Rightarrow> (Inl err, e)
                     | Inr found_id \<Rightarrow>
                         (if \<not> id_equals found_id file_id then (Inl FileIdMismatch, e)
                          else (case subscript json_data ''general_items'' of
                                  Inl err \<Rightarrow> (Inl err, e)
                                | Inr file_items \<Rightarrow>
                                    load_items (items_get file_items) (item_templates ft) e))))))"

text \<open>The loop of \<^verbatim>\<open>load_configs\<close> over \<^verbatim>\<open>_file_templates.items()\<close>.\<close>

fun load_files :: "(ident \<times> 's file_template) list \<Rightarrow> 's env \<Rightarrow> (error + unit) \<times> 's env" where
  "load_files [] e = (Inr (), e)"
| "load_files ((file_id, ft) # rest) e =
     (case internal_load_config_file file_id ft e of
        (Inl err, e') \<Rightarrow> (Inl err, e')
      | (Inr u, e') \<Rightarrow> load_files rest e')"

text \<open>\<^verbatim>\<open>ConfigManager.load_configs\<close>.\<close>

definition load_configs :: "'s manager \<Rightarrow> 's env \<Rightarrow> (error + unit) \<times> 's env" where
  "load_configs m e =
     (if \<not> finalized m then (Inl LoadBeforeFinalize, e)
      else load_files (file_templates m) e)"

text \<open>\<^verbatim>\<open>ConfigManager.load_config_file\<close>.\<close>

definition load_config_file :: "'s manager \<Rightarrow> ident \<Rightarrow> 's env \<Rightarrow> (error + unit) \<times> 's env" where
  "load_config_file m file_id e =
     (if \<not> finalized m then (Inl LoadBeforeFinalize, e)
      else (case map_of (file_templates m) file_id of
              None \<Rightarrow> (Inl KeyError, e)
            | Some ft \<Rightarrow> internal_load_config_file file_id ft e))"

section \<open>ConfigManager: save\<close>

text \<open>
  The loop of \<^verbatim>\<open>_save_config_file\<close>: \<^verbatim>\<open>json_items[item_id] = ..._serialize_obj(item_id)\<close>
  for every item, stopping at the first exception.
\<close>

fun serialize_items ::
  "(ident \<times> 's item_template) list \<Rightarrow> 's env \<Rightarrow> (ident \<times> json) list \<Rightarrow>
   error + (ident \<times> json) list" where
  "serialize_items [] e json_items = Inr json_items"
| "serialize_items ((item_id, tmpl) # rest) e json_items =
     (case serialize_obj tmpl item_id e of
        Inl err \<Rightarrow> Inl err
      | Inr j \<Rightarrow> serialize_items rest e (dict_set item_id j json_items))"

text \<open>
  \<^verbatim>\<open>json.dump\<close> writes a dict key that is an integer as its decimal string
  (\<^verbatim>\<open>str(key)\<close>); two keys that become the same string are both written, and reading
  the text back keeps the first one's position with the last one's value.
\<close>

fun digits :: "nat \<Rightarrow> string" where
  "digits n =
     (if n < 10 then [''0123456789'' ! n]
      else digits (n div 10) @ [''0123456789'' ! (n mod 10)])"

definition str_of_int :: "int \<Rightarrow> string" where
  "str_of_int i = (if i < 0 then CHR ''-'' # digits (nat (- i)) else digits (nat i))"

fun key_str :: "ident \<Rightarrow> string" where
  "key_str (IdStr s) = s"
| "key_str (IdInt n) = str_of_int n"

fun json_of_ident :: "ident \<Rightarrow> json" where
  "json_of_ident (IdStr s) = JStr s"
| "json_of_ident (IdInt n) = JInt n"

fun dump_keys :: "(ident \<times> json) list \<Rightarrow> (string \<times> json) list \<Rightarrow> (string \<times> json) list" where
  "dump_keys [] acc = acc"
| "dump_keys ((k, v) # kvs) acc = dump_keys kvs (dict_set (key_str k) v acc)"

text \<open>
  The document \<^verbatim>\<open>{"properties": {"id": file_id}, "general_items": json_items}\<close> as it
  reads back from the file \<^verbatim>\<open>json.dump\<close> wrote.
\<close>

definition dumped_document :: "ident \<Rightarrow> (ident \<times> json) list \<Rightarrow> json" where
  "dumped_document file_id json_items =
     JObj [(''properties'', JObj [(''id'', json_of_ident file_id)]),
           (''general_items'', JObj (dump_keys json_items []))]"

text \<open>
  \<^verbatim>\<open>ConfigManager._save_config_file\<close>: every item is serialised before the file is
  opened, so an exception of a serialiser leaves the file as it was.
  \<^verbatim>\<open>open(None, 'w')\<close> raises \<^verbatim>\<open>TypeError\<close>.
\<close>

definition internal_save_config_file ::
  "ident \<Rightarrow> 's file_template \<Rightarrow> 's env \<Rightarrow> (error + unit) \<times> 's env" where
  "internal_save_config_file file_id ft e =
     (case serialize_items (item_templates ft) e [] of
        Inl err \<Rightarrow> (Inl err, e)
      | Inr json_items \<Rightarrow>
          (case file_path ft of
             None \<Rightarrow> (Inl TypeError, e)
           | Some path \<Rightarrow>
               (Inr (), e\<lparr>disk := (disk e)(path \<mapsto> JsonFile (dumped_document file_id json_items))\<rparr>)))"

text \<open>The loop of \<^verbatim>\<open>save_configs\<close> over \<^verbatim>\<open>_file_templates.items()\<close>.\<close>

fun save_files :: "(ident \<times> 's file_template) list \<Rightarrow> 's env \<Rightarrow> (error + unit) \<times> 's env" where
  "save_files [] e = (Inr (), e)"
| "save_files ((file_id, ft) # rest) e =
     (case internal_save_config_file file_id ft e of
        (Inl err, e') \<Rightarrow> (Inl err, e')
      | (Inr u, e') \<Rightarrow> save_files rest e')"

text \<open>\<^verbatim>\<open>ConfigManager.save_configs\<close>.\<close>

definition save_configs :: "'s manager \<Rightarrow> 's env \<Rightarrow> (error + unit) \<times> 's env" where
  "save_configs m e =
     (if \<not> finalized m then (Inl SaveBeforeFinalize, e)
      else save_files (file_templates m) e)"

text \<open>\<^verbatim>\<open>ConfigManager.save_config_file\<close>.\<close>

definition save_config_file :: "'s manager \<Rightarrow> ident \<Rightarrow> 's env \<Rightarrow> (error + unit) \<times> 's env" where
  "save_config_file m file_id e =
     (if \<not> finalized m then (Inl SaveBeforeFinalize, e)
      else (case map_of (file_templates m) file_id of
              None \<Rightarrow> (Inl KeyError, e)
            | Some ft \<Rightarrow> internal_save_config_file file_id ft e))"

section \<open>The volume scenario\<close>

text \<open>
  The objects of the scenario: the factory that returns the JSON value it is given,
  or \<open>0\<close> when it is given none; the same factory returning its result inside an
  \<^verbatim>\<open>I_ConfigSerializable\<close> instance that serialises to that value; the target
  (mapping, key \<^verbatim>\<open>"volume"\<close>, factory); the manager after
  \<^verbatim>\<open>add_file_path("app", p)\<close>, \<^verbatim>\<open>add_items("app", {"volume": target})\<close> and
  \<^verbatim>\<open>finalize_layout()\<close>; a world with an empty mapping and no file; the document with
  \<^verbatim>\<open>general_items.volume = n\<close>.
\<close>

definition plain_factory :: factory_fn where
  "plain_factory item_id json_obj args kwargs =
     Inr (Plain (if json_obj = JNull then JInt 0 else json_obj))"

definition boxed :: "json \<Rightarrow> pyval" where
  "boxed j = Serializable (\<lambda>item_id. Inr j)"

definition boxing_factory :: factory_fn where
  "boxing_factory item_id json_obj args kwargs =
     Inr (boxed (if json_obj = JNull then JInt 0 else json_obj))"

definition volume_target :: "factory_fn \<Rightarrow> config_target" where
  "volume_target f = \<lparr>obj = DictRef 0, attr = ''volume'', factory = f\<rparr>"

definition scenario_manager :: "factory_fn \<Rightarrow> string \<Rightarrow> unit manager" where
  "scenario_manager f p =
     (let m1 = snd (add_file_path init (IdStr ''app'') p False);
          m2 = snd (add_items m1 (IdStr ''app'')
                      [(IdStr ''volume'', LikeTarget (volume_target f))])
      in snd (finalize_layout m2))"

definition empty_env :: "unit env" where
  "empty_env = \<lparr>store = (\<lambda>r a. None), entities = (\<lambda>n. ()), disk = (\<lambda>p. None), trace = []\<rparr>"

definition volume_document :: "int \<Rightarrow> json" where
  "volume_document n =
     JObj [(''properties'', JObj [(''id'', JStr ''app'')]),
           (''general_items'', JObj [(''volume'', JInt n)])]"

text \<open>Editing the file: the file at \<open>p\<close> now holds the document \<open>d\<close>.\<close>

definition write_file :: "string \<Rightarrow> json \<Rightarrow> 's env \<Rightarrow> 's env" where
  "write_file p d e = e\<lparr>disk := (disk e)(p \<mapsto> JsonFile d)\<rparr>"

section \<open>Manager states\<close>

text \<open>
  The states a manager can be in: the new manager, and every state a call of
  \<^verbatim>\<open>add_file_path\<close>, \<^verbatim>\<open>add_items\<close> or \<^verbatim>\<open>finalize_layout\<close> leaves, whether the call
  returned or raised.
\<close>

inductive reachable :: "'s manager \<Rightarrow> bool" where
  reach_init: "reachable init"
| reach_path: "reachable m \<Longrightarrow> reachable (snd (add_file_path m file_id path required))"
| reach_items: "reachable m \<Longrightarrow> reachable (snd (add_items m file_id items))"
| reach_finalize: "reachable m \<Longrightarrow> reachable (snd (finalize_layout m))"

text \<open>
  \<open>registered_since m m'\<close>: \<open>m'\<close> is what one or more registration calls, and no call
  of \<^verbatim>\<open>finalize_layout\<close>, made of \<open>m\<close>.
\<close>

inductive registered_since :: "'s manager \<Rightarrow> 's manager \<Rightarrow> bool" where
  since_path: "registered_since m (snd (add_file_path m file_id path required))"
| since_items: "registered_since m (snd (add_items m file_id items))"
| since_more_path:
    "registered_since m m' \<Longrightarrow> registered_since m (snd (add_file_path m' file_id path required))"
| since_more_items:
    "registered_since m m' \<Longrightarrow> registered_since m (snd (add_items m' file_id items))"

text \<open>The registered file ids whose template has no path.\<close>

definition missing_paths :: "'s manager \<Rightarrow> ident set" where
  "missing_paths m =
     {file_id. \<exists>ft. map_of (file_templates m) file_id = Some ft \<and> file_path ft = None}"

definition paths_complete :: "'s manager \<Rightarrow> bool" where
  "paths_complete m = list_all (\<lambda>(file_id, ft). file_path ft \<noteq> None) (file_templates m)"

text \<open>
  What every reachable state satisfies: file ids are distinct keys, and the flag is set
  only while every file has a path.
\<close>

definition manager_inv :: "'s manager \<Rightarrow> bool" where
  "manager_inv m \<longleftrightarrow>
     distinct (map fst (file_templates m)) \<and> (finalized m \<longrightarrow> paths_complete m)"

text \<open>A manager with one file, registered by \<^verbatim>\<open>add_items("cfg", {})\<close>, that has no path.\<close>

definition pathless_manager :: "unit manager" where
  "pathless_manager = snd (add_items init (IdStr ''cfg'') [])"

section \<open>Further scenario objects\<close>

text \<open>The manager of the volume scenario with the file marked required.\<close>

definition required_manager :: "unit manager" where
  "required_manager =
     snd (finalize_layout
       (snd (add_items (snd (add_file_path init (IdStr ''app'') ''app.json'' True)) (IdStr ''app'')
          [(IdStr ''volume'', LikeTarget (volume_target plain_factory))])))"

text \<open>A document whose \<^verbatim>\<open>properties.id\<close> is not \<^verbatim>\<open>"app"\<close>.\<close>

definition other_document :: json where
  "other_document =
     JObj [(''properties'', JObj [(''id'', JStr ''other'')]),
           (''general_items'', JObj [(''volume'', JInt 7)])]"

text \<open>The item template \<^verbatim>\<open>add_items\<close> builds for the bare target of the scenario.\<close>

definition volume_template :: "unit item_template" where
  "volume_template =
     \<lparr>target = Indirect (volume_target plain_factory), default_args = [], default_kwargs = []\<rparr>"

text \<open>
  The world in which the owner \<open>r\<close> has no attribute or key \<open>a\<close> (\<^verbatim>\<open>del obj[attr]\<close>),
  everything else as in \<open>e\<close>.
\<close>

definition forget :: "owner_ref \<Rightarrow> string \<Rightarrow> 's env \<Rightarrow> 's env" where
  "forget r a e = e\<lparr>store := (store e)(r := (store e r)(a := None))\<rparr>"

section \<open>Registered items\<close>

text \<open>\<^verbatim>\<open>self._file_templates[file_id].item_templates\<close>, empty for an unregistered file.\<close>

definition items_of :: "'s manager \<Rightarrow> ident \<Rightarrow> (ident \<times> 's item_template) list" where
  "items_of m file_id =
     (case map_of (file_templates m) file_id of None \<Rightarrow> [] | Some ft \<Rightarrow> item_templates ft)"

text \<open>A second target on the mapping of the scenario, under the key \<^verbatim>\<open>"bass"\<close>.\<close>

definition bass_target :: config_target where
  "bass_target = \<lparr>obj = DictRef 0, attr = ''bass'', factory = plain_factory\<rparr>"

section \<open>Observing a load\<close>

text \<open>
  The calls in a trace: its factory and reconfigure calls, without the warnings.
\<close>

fun is_call :: "event \<Rightarrow> bool" where
  "is_call (Warning r a v) = False"
| "is_call ev = True"

definition calls :: "event list \<Rightarrow> event list" where
  "calls evs = filter is_call evs"

text \<open>
  The calls a load from an absent file makes for a list of items: for each item bound to
  a target, in order, its factory with the JSON value \<^verbatim>\<open>None\<close>; nothing for a direct
  entity.
\<close>

fun default_calls :: "(ident \<times> 's item_template) list \<Rightarrow> event list" where
  "default_calls [] = []"
| "default_calls ((item_id, tmpl) # rest) =
     (case target tmpl of
        Indirect t \<Rightarrow> FactoryCall (obj t) (attr t) item_id JNull # default_calls rest
      | Direct c \<Rightarrow> default_calls rest)"

text \<open>
  \<open>written_by look items r a v\<close>: \<open>v\<close> is what the factory of one of the items bound to
  the attribute or key \<open>a\<close> of owner \<open>r\<close> returns for the JSON value \<open>look\<close> gives for
  its id, called with the item's defaults.
\<close>

definition written_by ::
  "(ident \<Rightarrow> error + json) \<Rightarrow> (ident \<times> 's item_template) list \<Rightarrow> owner_ref \<Rightarrow> string \<Rightarrow>
   pyval \<Rightarrow> bool" where
  "written_by look items r a v \<longleftrightarrow>
     (\<exists>(item_id, tmpl) \<in> set items. \<exists>t json_obj kwargs.
        target tmpl = Indirect t \<and> obj t = r \<and> attr t = a
        \<and> look item_id = Inr json_obj
        \<and> call_kwargs (default_kwargs tmpl) = Inr kwargs
        \<and> factory t item_id json_obj (default_args tmpl) kwargs = Inr v)"

text \<open>
  A direct entity whose reconfigure accepts everything, and the manager of the scenario
  with it registered as the item \<^verbatim>\<open>"mode"\<close> before the target \<^verbatim>\<open>"volume"\<close>.
\<close>

definition mode_item :: "unit config_item" where
  "mode_item =
     \<lparr>item_addr = 0,
      config_serialize = (\<lambda>s item_id. Inr (JStr ''quiet'')),
      config_reconfig = (\<lambda>s item_id json_obj args kwargs. (Inr (), s))\<rparr>"

definition mixed_manager :: "unit manager" where
  "mixed_manager =
     snd (finalize_layout
       (snd (add_items (snd (add_file_path init (IdStr ''app'') ''app.json'' False)) (IdStr ''app'')
          [(IdStr ''mode'', LikeItem mode_item),
           (IdStr ''volume'', LikeTarget (volume_target plain_factory))])))"

section \<open>Round trips\<close>

text \<open>Item ids are distinct keys within every file template.\<close>

definition items_distinct :: "'s manager \<Rightarrow> bool" where
  "items_distinct m =
     list_all (\<lambda>(file_id, ft). distinct (map fst (item_templates ft))) (file_templates m)"

text \<open>Every key of the dictionary is a string.\<close>

definition string_ids :: "(ident \<times> 'a) list \<Rightarrow> bool" where
  "string_ids kvs = list_all (\<lambda>(k, v). case k of IdStr s \<Rightarrow> True | IdInt n \<Rightarrow> False) kvs"

text \<open>
  \<open>rebuilds_equal eqv e items\<close>: for every item bound to a target, whenever its factory
  is given what the value now at the destination serialises to under the item's id, and
  returns, the value it returns is equal to that value under \<open>eqv\<close>, the factory's
  notion of equality.
\<close>

definition rebuilds_equal ::
  "(pyval \<Rightarrow> pyval \<Rightarrow> bool) \<Rightarrow> 's env \<Rightarrow> (ident \<times> 's item_template) list \<Rightarrow> bool" where
  "rebuilds_equal eqv e items \<longleftrightarrow>
     (\<forall>(item_id, tmpl) \<in> set items. \<forall>t ser json_obj kwargs v.
        target tmpl = Indirect t
        \<and> owner_get e (obj t) (attr t) = Serializable ser
        \<and> ser item_id = Inr json_obj
        \<and> call_kwargs (default_kwargs tmpl) = Inr kwargs
        \<and> factory t item_id json_obj (default_args tmpl) kwargs = Inr v
        \<longrightarrow> eqv (Serializable ser) v)"

text \<open>
  An equality of values: plain data are equal when they are the same JSON value,
  serialisable instances when they serialise alike under the item id.
\<close>

definition serializes_alike :: "ident \<Rightarrow> pyval \<Rightarrow> pyval \<Rightarrow> bool" where
  "serializes_alike item_id v w =
     (case (v, w) of
        (Serializable f, Serializable g) \<Rightarrow> f item_id = g item_id
      | (Plain a, Plain b) \<Rightarrow> a = b
      | _ \<Rightarrow> False)"

text \<open>The world of the scenario with an instance of \<open>5\<close> in \<^verbatim>\<open>mapping["volume"]\<close>.\<close>

definition loud_env :: "unit env" where
  "loud_env = owner_set (DictRef 0) ''volume'' (boxed (JInt 5)) empty_env"

text \<open>The manager of the scenario with the item registered under the integer id \<open>1\<close>.\<close>

definition numbered_manager :: "unit manager" where
  "numbered_manager =
     snd (finalize_layout
       (snd (add_items (snd (add_file_path init (IdStr ''app'') ''app.json'' False)) (IdStr ''app'')
          [(IdInt 1, LikeTarget (volume_target boxing_factory))])))"

text \<open>A factory that ignores the JSON value and always builds the default.\<close>

definition default_only_factory :: factory_fn where
  "default_only_factory item_id json_obj args kwargs = Inr (boxed (JInt 0))"

section \<open>Properties\<close>

subsection \<open>The volume scenario\<close>

lemma scenario_manager_eq:
  "scenario_manager f p =
     \<lparr>file_templates =
        [(IdStr ''app'',
          \<lparr>file_path = Some p, file_required = False,
           item_templates =
             [(IdStr ''volume'',
               \<lparr>target = Indirect (volume_target f), default_args = [],
                default_kwargs = []\<rparr>)]\<rparr>)],
      finalized = True\<rparr>"
  by (simp add: scenario_manager_def add_file_path_def add_items_def finalize_layout_def
      init_def setdefault_def new_file_template_def Let_def)

lemmas scenario_defs =
  load_configs_def save_configs_def internal_load_config_file_def
  internal_save_config_file_def deserialize_obj_def serialize_obj_def owner_get_def
  owner_set_def emit_def volume_target_def empty_env_def write_file_def
  dumped_document_def volume_document_def

text \<open>
  C1, as stated, fails at the save: the factory of the scenario stores the plain
  integer \<open>0\<close> in the mapping, a plain integer does not inherit from
  \<^verbatim>\<open>I_ConfigSerializable\<close>, and \<^verbatim>\<open>_serialize_obj\<close> raises before the file is opened.
  At the path \<^verbatim>\<open>app.json\<close>: the first load sets \<^verbatim>\<open>mapping["volume"]\<close> to \<open>0\<close>, the
  save raises "not serializable", and no file is written.
\<close>

theorem C1_save_raises_counterexample:
  "owner_get (snd (load_configs (scenario_manager plain_factory ''app.json'') empty_env))
     (DictRef 0) ''volume'' = Plain (JInt 0)
   \<and> fst (save_configs (scenario_manager plain_factory ''app.json'')
            (snd (load_configs (scenario_manager plain_factory ''app.json'') empty_env)))
       = Inl NotSerializable
   \<and> disk (snd (save_configs (scenario_manager plain_factory ''app.json'')
            (snd (load_configs (scenario_manager plain_factory ''app.json'') empty_env))))
       ''app.json'' = None"
  by (simp add: scenario_manager_eq scenario_defs plain_factory_def)

text \<open>
  C1, amended. With the factory of the scenario (returning the plain JSON value, or
  \<open>0\<close>): loading before any file exists sets \<^verbatim>\<open>mapping["volume"]\<close> to \<open>0\<close>; saving
  then raises "not serializable" and leaves the world as it was, so no file is
  written; once the file at \<open>p\<close> holds the document with \<^verbatim>\<open>general_items.volume = 7\<close>,
  loading sets \<^verbatim>\<open>mapping["volume"]\<close> to \<open>7\<close>. With the factory that returns the same
  value as a serialisable instance: loading sets \<^verbatim>\<open>mapping["volume"]\<close> to the instance
  of \<open>0\<close>; saving succeeds and the file at \<open>p\<close> holds exactly
  \<^verbatim>\<open>{"properties":{"id":"app"},"general_items":{"volume":0}}\<close>; after the file is
  edited to \<open>7\<close>, loading sets \<^verbatim>\<open>mapping["volume"]\<close> to the instance of \<open>7\<close>.
\<close>

theorem C1_scenario_amended:
  fixes p :: string
  defines "m \<equiv> scenario_manager plain_factory p"
      and "e1 \<equiv> snd (load_configs (scenario_manager plain_factory p) empty_env)"
      and "mb \<equiv> scenario_manager boxing_factory p"
      and "b1 \<equiv> snd (load_configs (scenario_manager boxing_factory p) empty_env)"
  defines "b2 \<equiv> snd (save_configs mb b1)"
  shows "fst (load_configs m empty_env) = Inr ()
       \<and> store e1 (DictRef 0) ''volume'' = Some (Plain (JInt 0))
       \<and> save_configs m e1 = (Inl NotSerializable, e1)
       \<and> disk e1 p = None
       \<and> fst (load_configs m (write_file p (volume_document 7) e1)) = Inr ()
       \<and> store (snd (load_configs m (write_file p (volume_document 7) e1)))
            (DictRef 0) ''volume'' = Some (Plain (JInt 7))
       \<and> fst (load_configs mb empty_env) = Inr ()
       \<and> store b1 (DictRef 0) ''volume'' = Some (boxed (JInt 0))
       \<and> fst (save_configs mb b1) = Inr ()
       \<and> disk b2 p = Some (JsonFile (volume_document 0))
       \<and> fst (load_configs mb (write_file p (volume_document 7) b2)) = Inr ()
       \<and> store (snd (load_configs mb (write_file p (volume_document 7) b2)))
            (DictRef 0) ''volume'' = Some (boxed (JInt 7))"
  unfolding m_def e1_def mb_def b1_def b2_def
  by (simp add: scenario_manager_eq scenario_defs plain_factory_def boxing_factory_def
      boxed_def)

subsection \<open>Dictionaries\<close>

lemma map_of_dict_set: "map_of (dict_set k v d) = (map_of d)(k \<mapsto> v)"
  by (induction d) (auto simp: fun_eq_iff)

lemma keys_dict_set:
  "map fst (dict_set k v d) = (if k \<in> set (map fst d) then map fst d else map fst d @ [k])"
  by (induction d) auto

lemma distinct_dict_set: "distinct (map fst d) \<Longrightarrow> distinct (map fst (dict_set k v d))"
  by (simp add: keys_dict_set)

lemma dict_set_fresh: "k \<notin> fst ` set d \<Longrightarrow> dict_set k v d = d @ [(k, v)]"
  by (induction d) auto

subsection \<open>Registration and finalisation\<close>

lemma setdefault_keys:
  "setdefault d k v = (d', x) \<Longrightarrow> distinct (map fst d) \<Longrightarrow>
   distinct (map fst d') \<and> map_of d' k = Some x"
  by (force simp: setdefault_def map_add_def map_of_eq_None_iff split: option.splits)

lemma inv_add_file_path: "manager_inv m \<Longrightarrow> manager_inv (snd (add_file_path m f p r))"
  by (auto simp: manager_inv_def add_file_path_def Let_def distinct_dict_set
      split: prod.splits dest: setdefault_keys)

lemma inv_add_items: "manager_inv m \<Longrightarrow> manager_inv (snd (add_items m f items))"
  by (auto simp: manager_inv_def add_items_def Let_def distinct_dict_set
      split: prod.splits dest: setdefault_keys)

lemma finalize_ok_iff: "fst (finalize_layout m) = Inr () \<longleftrightarrow> paths_complete m"
  by (auto simp: finalize_layout_def paths_complete_def Let_def list_all_iff filter_empty_conv
      split: prod.splits)

lemma inv_finalize: "manager_inv m \<Longrightarrow> manager_inv (snd (finalize_layout m))"
  using finalize_ok_iff[of m]
  by (auto simp: manager_inv_def finalize_layout_def Let_def paths_complete_def)

lemma reachable_inv: "reachable m \<Longrightarrow> manager_inv m"
  by (induction rule: reachable.induct)
     (auto simp: inv_add_file_path inv_add_items inv_finalize, simp add: manager_inv_def init_def)

lemma paths_complete_iff:
  "distinct (map fst (file_templates m)) \<Longrightarrow>
   paths_complete m \<longleftrightarrow>
     (\<forall>file_id ft. map_of (file_templates m) file_id = Some ft \<longrightarrow> file_path ft \<noteq> None)"
  by (auto simp: paths_complete_def list_all_iff dest: map_of_SomeD)

lemma query_result_set:
  "distinct (map fst (file_templates m)) \<Longrightarrow>
   set (map fst (filter (\<lambda>(file_id, ft). file_path ft = None) (file_templates m)))
     = missing_paths m"
  by (auto simp: missing_paths_def dest: map_of_SomeD) (force simp: image_iff)

text \<open>
  C3. In every state reachable by registration and finalisation calls,
  \<^verbatim>\<open>finalize_layout\<close> succeeds exactly when every registered file template has a path;
  when it raises, the ids it reports are exactly the registered file ids without a path
  and the manager is left as it was; on success only the flag changes, to true; and the
  flag is true afterwards exactly when the call succeeded.
\<close>

theorem C3_finalize:
  assumes "reachable m"
  shows "(fst (finalize_layout m) = Inr ()
            \<longleftrightarrow> (\<forall>file_id ft. map_of (file_templates m) file_id = Some ft
                    \<longrightarrow> file_path ft \<noteq> None))
       \<and> (\<forall>err. fst (finalize_layout m) = Inl err
            \<longrightarrow> (\<exists>ids. err = MissingFilePaths ids \<and> set ids = missing_paths m)
                \<and> snd (finalize_layout m) = m)
       \<and> (fst (finalize_layout m) = Inr () \<longrightarrow> snd (finalize_layout m) = m\<lparr>finalized := True\<rparr>)
       \<and> (finalized (snd (finalize_layout m)) \<longleftrightarrow> fst (finalize_layout m) = Inr ())"
proof -
  have inv: "manager_inv m" using assms by (rule reachable_inv)
  then have d: "distinct (map fst (file_templates m))" by (simp add: manager_inv_def)
  have 1: "fst (finalize_layout m) = Inr ()
            \<longleftrightarrow> (\<forall>file_id ft. map_of (file_templates m) file_id = Some ft
                    \<longrightarrow> file_path ft \<noteq> None)"
    by (simp only: finalize_ok_iff paths_complete_iff[OF d])
  have 2: "\<forall>err. fst (finalize_layout m) = Inl err
            \<longrightarrow> (\<exists>ids. err = MissingFilePaths ids \<and> set ids = missing_paths m)
                \<and> snd (finalize_layout m) = m"
    using query_result_set[OF d] by (auto simp: finalize_layout_def Let_def)
  have 3: "fst (finalize_layout m) = Inr () \<longrightarrow> snd (finalize_layout m) = m\<lparr>finalized := True\<rparr>"
    by (auto simp: finalize_layout_def Let_def split: if_splits)
  have 4: "finalized (snd (finalize_layout m)) \<longleftrightarrow> fst (finalize_layout m) = Inr ()"
    using inv finalize_ok_iff[of m]
    by (auto simp: finalize_layout_def Let_def manager_inv_def split: if_splits)
  from 1 2 3 4 show ?thesis by blast
qed


theorem C3_finalize_witness:
  "reachable pathless_manager
   \<and> fst (finalize_layout pathless_manager) = Inl (MissingFilePaths [IdStr ''cfg''])
   \<and> missing_paths pathless_manager = {IdStr ''cfg''}
   \<and> snd (finalize_layout pathless_manager) = pathless_manager
   \<and> \<not> finalized (snd (finalize_layout pathless_manager))
   \<and> reachable (snd (add_file_path pathless_manager (IdStr ''cfg'') ''cfg.json'' True))
   \<and> fst (finalize_layout (snd (add_file_path pathless_manager (IdStr ''cfg'') ''cfg.json'' True)))
       = Inr ()
   \<and> finalized (snd (finalize_layout
         (snd (add_file_path pathless_manager (IdStr ''cfg'') ''cfg.json'' True))))"
proof -
  have r1: "reachable pathless_manager"
    unfolding pathless_manager_def by (rule reach_items) (rule reach_init)
  have r2: "reachable (snd (add_file_path pathless_manager (IdStr ''cfg'') ''cfg.json'' True))"
    using r1 by (rule reach_path)
  have f1: "fst (finalize_layout pathless_manager) = Inl (MissingFilePaths [IdStr ''cfg''])"
    by (simp add: pathless_manager_def add_items_def finalize_layout_def init_def
        setdefault_def new_file_template_def)
  have f2: "fst (finalize_layout
              (snd (add_file_path pathless_manager (IdStr ''cfg'') ''cfg.json'' True))) = Inr ()"
    by (simp add: pathless_manager_def add_items_def add_file_path_def finalize_layout_def
        init_def setdefault_def new_file_template_def)
  show ?thesis
    using C3_finalize [OF r1] C3_finalize [OF r2] r1 r2 f1 f2 by auto
qed

lemma registered_since_not_finalized: "registered_since m m' \<Longrightarrow> \<not> finalized m'"
  by (induction rule: registered_since.induct)
     (simp_all add: add_file_path_def add_items_def Let_def split: prod.splits)

text \<open>
  C4. After one or more registration calls (\<^verbatim>\<open>add_file_path\<close> or \<^verbatim>\<open>add_items\<close>,
  returning or raising) on any manager, in particular a finalized one, and no
  \<^verbatim>\<open>finalize_layout\<close> since, the flag is false, whatever the paths are, and every load
  and save call raises without touching the world.
\<close>

theorem C4_registration_resets_finalized:
  assumes "registered_since m m'"
  shows "\<not> finalized m'
       \<and> load_configs m' e = (Inl LoadBeforeFinalize, e)
       \<and> load_config_file m' file_id e = (Inl LoadBeforeFinalize, e)
       \<and> save_configs m' e = (Inl SaveBeforeFinalize, e)
       \<and> save_config_file m' file_id e = (Inl SaveBeforeFinalize, e)"
  using registered_since_not_finalized [OF assms]
  by (simp add: load_configs_def load_config_file_def save_configs_def save_config_file_def)

theorem C4_registration_resets_finalized_witness:
  "finalized (scenario_manager boxing_factory ''app.json'')
   \<and> registered_since (scenario_manager boxing_factory ''app.json'')
        (snd (add_items (scenario_manager boxing_factory ''app.json'') (IdStr ''app'') []))
   \<and> fst (finalize_layout
        (snd (add_items (scenario_manager boxing_factory ''app.json'') (IdStr ''app'') [])))
       = Inr ()
   \<and> \<not> finalized (snd (add_items (scenario_manager boxing_factory ''app.json'') (IdStr ''app'') []))
   \<and> load_configs (snd (add_items (scenario_manager boxing_factory ''app.json'') (IdStr ''app'') []))
        empty_env = (Inl LoadBeforeFinalize, empty_env)
   \<and> save_config_file
        (snd (add_items (scenario_manager boxing_factory ''app.json'') (IdStr ''app'') []))
        (IdStr ''app'') empty_env = (Inl SaveBeforeFinalize, empty_env)"
proof -
  let ?m = "scenario_manager boxing_factory ''app.json''"
  have s: "registered_since ?m (snd (add_items ?m (IdStr ''app'') []))"
    by (rule since_items)
  have f: "finalized ?m" by (simp add: scenario_manager_eq)
  have c: "fst (finalize_layout (snd (add_items ?m (IdStr ''app'') []))) = Inr ()"
    by (simp add: scenario_manager_eq add_items_def finalize_layout_def setdefault_def)
  show ?thesis
    using C4_registration_resets_finalized [OF s, of empty_env "IdStr ''app''"] s f c by simp
qed

subsection \<open>Failing loads\<close>

lemma required_manager_eq:
  "required_manager =
     \<lparr>file_templates =
        [(IdStr ''app'',
          \<lparr>file_path = Some ''app.json'', file_required = True,
           item_templates =
             [(IdStr ''volume'',
               \<lparr>target = Indirect (volume_target plain_factory), default_args = [],
                default_kwargs = []\<rparr>)]\<rparr>)],
      finalized = True\<rparr>"
  by (simp add: required_manager_def add_file_path_def add_items_def finalize_layout_def
      init_def setdefault_def new_file_template_def Let_def)

text \<open>
  C6. For a finalized manager, loading a registered file that is absent on disk and marked
  required raises "required file missing" and returns the world as it was: no owner's
  attribute or key, no direct entity, no file and no entry of the trace has changed.
\<close>

theorem C6_required_file_missing:
  assumes "finalized m"
      and "map_of (file_templates m) file_id = Some ft"
      and "file_path ft = Some path"
      and "disk e path = None"
      and "file_required ft"
  shows "load_config_file m file_id e = (Inl (RequiredFileMissing file_id path), e)"
  using assms by (simp add: load_config_file_def internal_load_config_file_def)

theorem C6_required_file_missing_witness:
  "load_config_file required_manager (IdStr ''app'') empty_env
     = (Inl (RequiredFileMissing (IdStr ''app'') ''app.json''), empty_env)
   \<and> store (snd (load_config_file required_manager (IdStr ''app'') empty_env)) (DictRef 0) ''volume''
     = None"
proof -
  have "load_config_file required_manager (IdStr ''app'') empty_env
     = (Inl (RequiredFileMissing (IdStr ''app'') ''app.json''), empty_env)"
    using C6_required_file_missing [of required_manager "IdStr ''app''"
        "snd (hd (file_templates required_manager))" "''app.json''" empty_env]
    by (simp add: required_manager_eq empty_env_def)
  then show ?thesis by (simp add: empty_env_def)
qed

text \<open>
  C7. For a finalized manager, loading a registered file that is present on disk and whose
  document has a \<^verbatim>\<open>properties.id\<close> that Python's \<^verbatim>\<open>!=\<close> tells apart from the file id
  raises the id mismatch error and returns the world as it was: no item template was
  processed, so the trace holds no new factory or reconfigure call and no destination
  has changed.
\<close>

theorem C7_file_id_mismatch:
  assumes "finalized m"
      and "map_of (file_templates m) file_id = Some ft"
      and "file_path ft = Some path"
      and "disk e path = Some (JsonFile json_data)"
      and "subscript json_data ''properties'' = Inr file_properties"
      and "subscript file_properties ''id'' = Inr found_id"
      and "\<not> id_equals found_id file_id"
  shows "load_config_file m file_id e = (Inl FileIdMismatch, e)"
  using assms by (simp add: load_config_file_def internal_load_config_file_def)

theorem C7_file_id_mismatch_witness:
  "load_config_file (scenario_manager plain_factory ''app.json'') (IdStr ''app'')
      (write_file ''app.json'' other_document empty_env)
     = (Inl FileIdMismatch, write_file ''app.json'' other_document empty_env)
   \<and> store (snd (load_config_file (scenario_manager plain_factory ''app.json'') (IdStr ''app'')
        (write_file ''app.json'' other_document empty_env))) (DictRef 0) ''volume'' = None
   \<and> trace (snd (load_config_file (scenario_manager plain_factory ''app.json'') (IdStr ''app'')
        (write_file ''app.json'' other_document empty_env))) = []"
proof -
  have "load_config_file (scenario_manager plain_factory ''app.json'') (IdStr ''app'')
      (write_file ''app.json'' other_document empty_env)
     = (Inl FileIdMismatch, write_file ''app.json'' other_document empty_env)"
    using C7_file_id_mismatch [of "scenario_manager plain_factory ''app.json''" "IdStr ''app''"
        "snd (hd (file_templates (scenario_manager plain_factory ''app.json'')))" "''app.json''"
        "write_file ''app.json'' other_document empty_env" other_document
        "JObj [(''id'', JStr ''other'')]" "JStr ''other''"]
    by (simp add: scenario_manager_eq write_file_def other_document_def empty_env_def)
  then show ?thesis by (simp add: write_file_def empty_env_def)
qed

subsection \<open>A destination holding None\<close>

text \<open>
  C9. A target whose owner holds \<^verbatim>\<open>None\<close> at the named attribute or key behaves as one
  whose owner has no such attribute or key: serialising raises "missing object" in both
  worlds; deserialising has the same outcome and the same trace in both worlds, adds no
  warning to the trace, and, when the factory returns a value, stores it and ends in
  the same world.
\<close>

theorem C9_none_is_absent:
  assumes "target tmpl = Indirect t"
      and "store e (obj t) (attr t) = Some PyNone"
  shows "serialize_obj tmpl item_id e = Inl MissingObject
       \<and> serialize_obj tmpl item_id (forget (obj t) (attr t) e) = Inl MissingObject
       \<and> fst (deserialize_obj tmpl item_id json_obj e)
           = fst (deserialize_obj tmpl item_id json_obj (forget (obj t) (attr t) e))
       \<and> trace (snd (deserialize_obj tmpl item_id json_obj e))
           = trace (snd (deserialize_obj tmpl item_id json_obj (forget (obj t) (attr t) e)))
       \<and> (\<forall>r a v. Warning r a v \<notin> set (trace (snd (deserialize_obj tmpl item_id json_obj e)))
                     - set (trace e))
       \<and> (\<forall>kwargs v. call_kwargs (default_kwargs tmpl) = Inr kwargs
             \<and> factory t item_id json_obj (default_args tmpl) kwargs = Inr v
           \<longrightarrow> deserialize_obj tmpl item_id json_obj e
                 = (Inr (), owner_set (obj t) (attr t) v
                              (emit (FactoryCall (obj t) (attr t) item_id json_obj) e))
               \<and> snd (deserialize_obj tmpl item_id json_obj e)
                 = snd (deserialize_obj tmpl item_id json_obj (forget (obj t) (attr t) e)))"
  using assms
  by (auto simp: serialize_obj_def deserialize_obj_def owner_get_def owner_set_def emit_def
      forget_def Let_def split: sum.splits)


theorem C9_none_is_absent_witness:
  "store (owner_set (DictRef 0) ''volume'' PyNone empty_env) (DictRef 0) ''volume'' = Some PyNone
   \<and> serialize_obj volume_template (IdStr ''volume'')
        (owner_set (DictRef 0) ''volume'' PyNone empty_env) = Inl MissingObject
   \<and> serialize_obj volume_template (IdStr ''volume'') empty_env = Inl MissingObject
   \<and> fst (deserialize_obj volume_template (IdStr ''volume'') (JInt 7)
        (owner_set (DictRef 0) ''volume'' PyNone empty_env)) = Inr ()
   \<and> trace (snd (deserialize_obj volume_template (IdStr ''volume'') (JInt 7)
        (owner_set (DictRef 0) ''volume'' PyNone empty_env)))
       = [FactoryCall (DictRef 0) ''volume'' (IdStr ''volume'') (JInt 7)]
   \<and> store (snd (deserialize_obj volume_template (IdStr ''volume'') (JInt 7)
        (owner_set (DictRef 0) ''volume'' PyNone empty_env))) (DictRef 0) ''volume''
       = Some (Plain (JInt 7))"
proof -
  let ?e = "owner_set (DictRef 0) ''volume'' PyNone empty_env"
  have t: "target volume_template = Indirect (volume_target plain_factory)"
    by (simp add: volume_template_def)
  have s: "store ?e (obj (volume_target plain_factory)) (attr (volume_target plain_factory))
             = Some PyNone"
    by (simp add: owner_set_def volume_target_def)
  have f: "forget (DictRef 0) ''volume'' ?e = empty_env"
    by (simp add: forget_def owner_set_def empty_env_def fun_eq_iff)
  show ?thesis
    using C9_none_is_absent [OF t s, of "IdStr ''volume''" "JInt 7"] s f
    by (simp add: volume_target_def volume_template_def plain_factory_def owner_set_def
        emit_def empty_env_def)
qed

subsection \<open>add_items\<close>

lemma add_items_loop_append:
  "add_items_loop f (xs @ ys) its =
     (case add_items_loop f xs its of
        (Inl err, its') \<Rightarrow> (Inl err, its')
      | (Inr u, its') \<Rightarrow> add_items_loop f ys its')"
  by (induction xs arbitrary: its) (auto split: sum.splits)

lemma add_items_loop_ok:
  "add_items_loop f items its = (Inr u, its') \<Longrightarrow> (item_id, like) \<in> set items \<Longrightarrow>
   (\<exists>tmpl. as_template like = Inr tmpl) \<and> item_id \<notin> fst ` set its"
proof (induction items arbitrary: its)
  case Nil
  then show ?case by simp
next
  case (Cons x items)
  obtain i l where x: "x = (i, l)" by (cases x)
  from Cons.prems(1) x have fresh: "i \<notin> fst ` set its"
    by (auto split: if_splits)
  from Cons.prems(1) x fresh obtain t where t: "as_template l = Inr t"
    and rest: "add_items_loop f items (dict_set i t its) = (Inr u, its')"
    by (auto split: if_splits sum.splits)
  show ?case
  proof (cases "(item_id, like) = (i, l)")
    case True
    with fresh t show ?thesis by auto
  next
    case False
    with Cons.prems(2) x have "(item_id, like) \<in> set items" by auto
    from Cons.IH [OF rest this] show ?thesis
      by (auto simp: dict_set_fresh [OF fresh])
  qed
qed

lemma add_items_loop_keeps:
  "k \<in> fst ` set its \<Longrightarrow> map_of (snd (add_items_loop f items its)) k = map_of its k"
proof (induction items arbitrary: its)
  case Nil
  then show ?case by simp
next
  case (Cons x items)
  obtain i l where x: "x = (i, l)" by (cases x)
  show ?case
  proof (cases "i \<in> fst ` set its")
    case True
    with x show ?thesis by simp
  next
    case False
    show ?thesis
    proof (cases "as_template l")
      case (Inl err)
      with x False show ?thesis by simp
    next
      case (Inr tmpl)
      from Cons.prems have 2: "k \<in> fst ` set (dict_set i tmpl its)"
        by (simp add: dict_set_fresh [OF False])
      from Cons.prems False have ne: "k \<noteq> i" by auto
      from Cons.IH [OF 2] x False Inr ne show ?thesis
        by (simp add: map_of_dict_set)
    qed
  qed
qed

lemma add_items_loop_registers:
  "add_items_loop f items its = (Inr u, its') \<Longrightarrow> (i, l) \<in> set items \<Longrightarrow>
   \<exists>t. as_template l = Inr t \<and> map_of its' i = Some t"
proof (induction items arbitrary: its)
  case Nil
  then show ?case by simp
next
  case (Cons x items)
  obtain j k where x: "x = (j, k)" by (cases x)
  from Cons.prems(1) x have fresh: "j \<notin> fst ` set its"
    by (auto split: if_splits)
  from Cons.prems(1) x fresh obtain t where t: "as_template k = Inr t"
    and rest: "add_items_loop f items (dict_set j t its) = (Inr u, its')"
    by (auto split: if_splits sum.splits)
  show ?case
  proof (cases "(i, l) \<in> set items")
    case True
    from Cons.IH [OF rest True] show ?thesis .
  next
    case False
    with Cons.prems(2) x have eq: "i = j" "l = k" by auto
    have "j \<in> fst ` set (dict_set j t its)"
      by (simp add: dict_set_fresh [OF fresh])
    from add_items_loop_keeps [OF this, of f items] rest
    have "map_of its' j = Some t" by (simp add: map_of_dict_set)
    with t eq show ?thesis by simp
  qed
qed

lemma items_of_add_items:
  "items_of (snd (add_items m f items)) f = snd (add_items_loop f items (items_of m f))"
  by (auto simp: add_items_def items_of_def setdefault_def new_file_template_def
      map_of_dict_set Let_def split: option.splits prod.splits)

lemma fst_add_items:
  "fst (add_items m f items) = fst (add_items_loop f items (items_of m f))"
  by (auto simp: add_items_def items_of_def setdefault_def new_file_template_def
      map_of_dict_set Let_def split: option.splits prod.splits)

text \<open>
  C8, amended. When \<^verbatim>\<open>add_items\<close> returns, every item of the call had an id that was
  not yet in the file template, and every item given as a tuple had a \<^verbatim>\<open>list\<close> as its
  second element and a \<^verbatim>\<open>dict\<close> as its third, where present: so a call with a tuple
  whose default-args element is not a list, or whose default-kwargs element is not a
  dict, raises. On a tuple that starts with a destination the exception is the one
  about default args, or about default kwargs when the args are a list. A dict is
  accepted whatever its keys are. A call whose first item has an id already in the file
  template raises the duplicate error and leaves the item templates of the file as they
  were.
\<close>

theorem C8_add_items_rejects:
  "(fst (add_items m file_id items) = Inr () \<and> (item_id, like) \<in> set items
      \<longrightarrow> item_id \<notin> fst ` set (items_of m file_id)
          \<and> (\<forall>d a rest. like = LikeTuple (d # a # rest) \<longrightarrow> (\<exists>args. a = ElemList args))
          \<and> (\<forall>d a k rest. like = LikeTuple (d # a # k # rest) \<longrightarrow> (\<exists>kwargs. k = ElemDict kwargs)))
   \<and> (elem_destination d = Some dst \<and> (\<forall>args. a \<noteq> ElemList args)
      \<longrightarrow> as_template (LikeTuple (d # a # rest)) = Inl BadDefaultArgs)
   \<and> (elem_destination d = Some dst \<and> (\<forall>kwargs. k \<noteq> ElemDict kwargs)
      \<longrightarrow> as_template (LikeTuple (d # ElemList args # k # rest)) = Inl BadDefaultKwargs)
   \<and> (elem_destination d = Some dst
      \<longrightarrow> as_template (LikeTuple [d, ElemList args, ElemDict kwargs])
          = Inr \<lparr>target = dst, default_args = args, default_kwargs = kwargs\<rparr>)
   \<and> (item_id \<in> fst ` set (items_of m file_id)
      \<longrightarrow> fst (add_items m file_id ((item_id, like) # others))
            = Inl (DuplicateItem item_id file_id)
          \<and> items_of (snd (add_items m file_id ((item_id, like) # others))) file_id
                = items_of m file_id)"
proof -
  have 1: "fst (add_items m file_id items) = Inr () \<and> (item_id, like) \<in> set items
      \<longrightarrow> item_id \<notin> fst ` set (items_of m file_id)
          \<and> (\<forall>d a rest. like = LikeTuple (d # a # rest) \<longrightarrow> (\<exists>args. a = ElemList args))
          \<and> (\<forall>d a k rest. like = LikeTuple (d # a # k # rest) \<longrightarrow> (\<exists>kwargs. k = ElemDict kwargs))"
  proof (intro impI, elim conjE)
    assume ok: "fst (add_items m file_id items) = Inr ()" and mem: "(item_id, like) \<in> set items"
    obtain its' where "add_items_loop file_id items (items_of m file_id) = (Inr (), its')"
      using ok by (cases "add_items_loop file_id items (items_of m file_id)")
                  (simp add: fst_add_items)
    from add_items_loop_ok [OF this mem]
    obtain tmpl where t: "as_template like = Inr tmpl"
      and fresh: "item_id \<notin> fst ` set (items_of m file_id)" by blast
    have a: "\<forall>d a rest. like = LikeTuple (d # a # rest) \<longrightarrow> (\<exists>args. a = ElemList args)"
      using t by (auto split: option.splits list.splits tuple_elem.splits)
    have k: "\<forall>d a k rest. like = LikeTuple (d # a # k # rest) \<longrightarrow> (\<exists>kwargs. k = ElemDict kwargs)"
      using t by (auto split: option.splits list.splits tuple_elem.splits)
    from fresh a k show "item_id \<notin> fst ` set (items_of m file_id)
          \<and> (\<forall>d a rest. like = LikeTuple (d # a # rest) \<longrightarrow> (\<exists>args. a = ElemList args))
          \<and> (\<forall>d a k rest. like = LikeTuple (d # a # k # rest) \<longrightarrow> (\<exists>kwargs. k = ElemDict kwargs))"
      by blast
  qed
  have 2: "elem_destination d = Some dst \<and> (\<forall>args. a \<noteq> ElemList args)
      \<longrightarrow> as_template (LikeTuple (d # a # rest)) = Inl BadDefaultArgs"
    by (cases a) auto
  have 3: "elem_destination d = Some dst \<and> (\<forall>kwargs. k \<noteq> ElemDict kwargs)
      \<longrightarrow> as_template (LikeTuple (d # ElemList args # k # rest)) = Inl BadDefaultKwargs"
    by (cases k) auto
  have 4: "elem_destination d = Some dst
      \<longrightarrow> as_template (LikeTuple [d, ElemList args, ElemDict kwargs])
          = Inr \<lparr>target = dst, default_args = args, default_kwargs = kwargs\<rparr>"
    by auto
  have 5: "item_id \<in> fst ` set (items_of m file_id)
      \<longrightarrow> fst (add_items m file_id ((item_id, like) # others))
            = Inl (DuplicateItem item_id file_id)
          \<and> items_of (snd (add_items m file_id ((item_id, like) # others))) file_id
                = items_of m file_id"
    by (simp add: fst_add_items items_of_add_items)
  from 1 2 3 4 5 show ?thesis by blast
qed


text \<open>
  C8, as stated, fails for a default-kwargs element that is a dict with a key that is not
  a string: \<^verbatim>\<open>add_items("app", {"volume": (target, [], {1: None})})\<close> returns and
  registers the template with those kwargs.
\<close>

theorem C8_int_keyed_kwargs_counterexample:
  "fst (add_items (init :: unit manager) (IdStr ''app'')
          [(IdStr ''volume'',
            LikeTuple [ElemTarget (volume_target plain_factory), ElemList [],
                       ElemDict [(IdInt 1, PyNone)]])]) = Inr ()
   \<and> items_of (snd (add_items (init :: unit manager) (IdStr ''app'')
          [(IdStr ''volume'',
            LikeTuple [ElemTarget (volume_target plain_factory), ElemList [],
                       ElemDict [(IdInt 1, PyNone)]])])) (IdStr ''app'')
       = [(IdStr ''volume'',
           \<lparr>target = Indirect (volume_target plain_factory), default_args = [],
            default_kwargs = [(IdInt 1, PyNone)]\<rparr>)]"
  by (simp add: add_items_def init_def setdefault_def new_file_template_def items_of_def)

theorem C8_add_items_rejects_witness:
  "as_template (LikeTuple [ElemTarget (volume_target plain_factory), ElemOther]
                 :: unit item_like) = Inl BadDefaultArgs
   \<and> as_template (LikeTuple [ElemTarget (volume_target plain_factory), ElemList [], ElemOther]
                 :: unit item_like) = Inl BadDefaultKwargs
   \<and> as_template (LikeTuple [ElemTarget (volume_target plain_factory), ElemList [],
                              ElemDict [(IdStr ''step'', Plain (JInt 1))]] :: unit item_like)
       = Inr \<lparr>target = Indirect (volume_target plain_factory), default_args = [],
              default_kwargs = [(IdStr ''step'', Plain (JInt 1))]\<rparr>
   \<and> IdStr ''volume'' \<in> fst ` set (items_of (scenario_manager plain_factory ''app.json'')
                                       (IdStr ''app''))
   \<and> fst (add_items (scenario_manager plain_factory ''app.json'') (IdStr ''app'')
            [(IdStr ''volume'', LikeTarget (volume_target boxing_factory))])
       = Inl (DuplicateItem (IdStr ''volume'') (IdStr ''app''))
   \<and> items_of (snd (add_items (scenario_manager plain_factory ''app.json'') (IdStr ''app'')
            [(IdStr ''volume'', LikeTarget (volume_target boxing_factory))])) (IdStr ''app'')
       = items_of (scenario_manager plain_factory ''app.json'') (IdStr ''app'')"
proof -
  let ?m = "scenario_manager plain_factory ''app.json''"
  have mem: "IdStr ''volume'' \<in> fst ` set (items_of ?m (IdStr ''app''))"
    by (simp add: scenario_manager_eq items_of_def)
  have e: "elem_destination (ElemTarget (volume_target plain_factory) :: unit tuple_elem)
             = Some (Indirect (volume_target plain_factory))"
    by simp
  show ?thesis
    using C8_add_items_rejects [of ?m "IdStr ''app''" "[]" "IdStr ''volume''"
        "LikeTarget (volume_target boxing_factory)"
        "ElemTarget (volume_target plain_factory)" "Indirect (volume_target plain_factory)"
        ElemOther "[]" ElemOther "[]" "[(IdStr ''step'', Plain (JInt 1))]" "[]"] mem e
    by simp
qed

text \<open>
  C10. When the items before the failing one are accepted and the failing one raises
  \<open>err\<close> after them (a duplicate id, an unsupported shape, or any other exception of
  the loop body), the whole call raises \<open>err\<close> and leaves the manager exactly as the
  successful registration of the items before it would: the flag is false and every
  one of those items is registered under its id.
\<close>

theorem C10_add_items_not_atomic:
  assumes "fst (add_items m file_id pre) = Inr ()"
      and "fst (add_items (snd (add_items m file_id pre)) file_id [(item_id, like)]) = Inl err"
  shows "add_items m file_id (pre @ (item_id, like) # rest)
           = (Inl err, snd (add_items m file_id pre))
       \<and> \<not> finalized (snd (add_items m file_id (pre @ (item_id, like) # rest)))
       \<and> (\<forall>(i, l) \<in> set pre. \<exists>t. as_template l = Inr t
            \<and> map_of (items_of (snd (add_items m file_id (pre @ (item_id, like) # rest))) file_id) i
                = Some t)"
proof -
  obtain its1 where pre: "add_items_loop file_id pre (items_of m file_id) = (Inr (), its1)"
    using assms(1)
    by (cases "add_items_loop file_id pre (items_of m file_id)") (simp add: fst_add_items)
  have its1: "items_of (snd (add_items m file_id pre)) file_id = its1"
    using pre by (simp add: items_of_add_items)
  have bad: "fst (add_items_loop file_id [(item_id, like)] its1) = Inl err"
    using assms(2) by (simp only: fst_add_items its1)
  have stop: "add_items_loop file_id ((item_id, like) # rest) its1 = (Inl err, its1)"
  proof (cases "item_id \<in> fst ` set its1")
    case True
    with bad show ?thesis by simp
  next
    case False
    with bad show ?thesis by (cases "as_template like") simp_all
  qed
  have loop: "add_items_loop file_id (pre @ (item_id, like) # rest) (items_of m file_id)
                = (Inl err, its1)"
    by (simp add: add_items_loop_append pre stop del: add_items_loop.simps)
  have unfold: "\<And>xs. add_items m file_id xs =
      (fst (add_items_loop file_id xs (items_of m file_id)),
       m\<lparr>file_templates :=
            dict_set file_id
              (snd (setdefault (file_templates m) file_id new_file_template)
                 \<lparr>item_templates := snd (add_items_loop file_id xs (items_of m file_id))\<rparr>)
              (fst (setdefault (file_templates m) file_id new_file_template)),
          finalized := False\<rparr>)"
    by (auto simp: add_items_def items_of_def setdefault_def new_file_template_def Let_def
        split: option.splits prod.splits)
  have 1: "add_items m file_id (pre @ (item_id, like) # rest)
             = (Inl err, snd (add_items m file_id pre))"
    by (simp add: unfold [of "pre @ (item_id, like) # rest"] unfold [of pre] loop pre)
  have 2: "\<not> finalized (snd (add_items m file_id (pre @ (item_id, like) # rest)))"
    by (simp add: unfold [of "pre @ (item_id, like) # rest"])
  have 3: "\<forall>(i, l) \<in> set pre. \<exists>t. as_template l = Inr t
            \<and> map_of (items_of (snd (add_items m file_id (pre @ (item_id, like) # rest))) file_id) i
                = Some t"
    using add_items_loop_registers [OF pre] by (auto simp: 1 its1)
  from 1 2 3 show ?thesis by blast
qed

theorem C10_add_items_not_atomic_witness:
  "fst (add_items (scenario_manager plain_factory ''app.json'') (IdStr ''app'')
          [(IdStr ''bass'', LikeTarget bass_target),
           (IdStr ''volume'', LikeTarget (volume_target plain_factory)),
           (IdStr ''treble'', LikeOther)])
     = Inl (DuplicateItem (IdStr ''volume'') (IdStr ''app''))
   \<and> finalized (scenario_manager plain_factory ''app.json'')
   \<and> \<not> finalized (snd (add_items (scenario_manager plain_factory ''app.json'') (IdStr ''app'')
          [(IdStr ''bass'', LikeTarget bass_target),
           (IdStr ''volume'', LikeTarget (volume_target plain_factory)),
           (IdStr ''treble'', LikeOther)]))
   \<and> map_of (items_of (scenario_manager plain_factory ''app.json'') (IdStr ''app''))
        (IdStr ''bass'') = None
   \<and> map_of (items_of (snd (add_items (scenario_manager plain_factory ''app.json'') (IdStr ''app'')
          [(IdStr ''bass'', LikeTarget bass_target),
           (IdStr ''volume'', LikeTarget (volume_target plain_factory)),
           (IdStr ''treble'', LikeOther)])) (IdStr ''app'')) (IdStr ''bass'')
       = Some \<lparr>target = Indirect bass_target, default_args = [], default_kwargs = []\<rparr>"
proof -
  let ?m = "scenario_manager plain_factory ''app.json''"
  have a: "fst (add_items ?m (IdStr ''app'') [(IdStr ''bass'', LikeTarget bass_target)]) = Inr ()"
    by (simp add: scenario_manager_eq add_items_def setdefault_def)
  have b: "fst (add_items (snd (add_items ?m (IdStr ''app'')
                  [(IdStr ''bass'', LikeTarget bass_target)])) (IdStr ''app'')
                  [(IdStr ''volume'', LikeTarget (volume_target plain_factory))])
             = Inl (DuplicateItem (IdStr ''volume'') (IdStr ''app''))"
    by (simp add: scenario_manager_eq add_items_def setdefault_def)
  have c: "map_of (items_of ?m (IdStr ''app'')) (IdStr ''bass'') = None"
    by (simp add: scenario_manager_eq items_of_def)
  have f: "finalized ?m" by (simp add: scenario_manager_eq)
  show ?thesis
    using C10_add_items_not_atomic [OF a b, of "[(IdStr ''treble'', LikeOther)]"] c f
    by (simp add: scenario_manager_eq add_items_def setdefault_def items_of_def)
qed

subsection \<open>Loading from an absent file\<close>

lemma written_by_Cons:
  "written_by look items r a v \<Longrightarrow> written_by look (x # items) r a v"
  by (auto simp: written_by_def)

lemma deserialize_obj_store:
  "deserialize_obj tmpl item_id j e = (res, e') \<Longrightarrow>
   store e' r a = store e r a
   \<or> (\<exists>t kwargs v. target tmpl = Indirect t \<and> obj t = r \<and> attr t = a
        \<and> call_kwargs (default_kwargs tmpl) = Inr kwargs
        \<and> factory t item_id j (default_args tmpl) kwargs = Inr v
        \<and> store e' r a = Some v)"
  by (cases "target tmpl")
     (auto simp: deserialize_obj_def owner_set_def emit_def Let_def
       split: sum.splits if_splits prod.splits)

lemma deserialize_obj_target_ok:
  "deserialize_obj tmpl item_id j e = (Inr u, e') \<Longrightarrow> target tmpl = Indirect t \<Longrightarrow>
   \<exists>kwargs v. call_kwargs (default_kwargs tmpl) = Inr kwargs
     \<and> factory t item_id j (default_args tmpl) kwargs = Inr v
     \<and> store e' (obj t) (attr t) = Some v"
  by (auto simp: deserialize_obj_def owner_set_def emit_def Let_def
       split: sum.splits if_splits)

lemma load_items_store:
  "load_items look items e = (res, e') \<Longrightarrow>
   store e' r a = store e r a \<or> (\<exists>v. store e' r a = Some v \<and> written_by look items r a v)"
proof (induction items arbitrary: e)
  case Nil
  then show ?case by simp
next
  case (Cons x items)
  obtain i tm where x: "x = (i, tm)" by (cases x)
  show ?case
  proof (cases "look i")
    case (Inl err)
    with Cons.prems x show ?thesis by simp
  next
    case (Inr j)
    obtain r1 e1 where d: "deserialize_obj tm i j e = (r1, e1)"
      by (cases "deserialize_obj tm i j e")
    have head: "store e1 r a = store e r a
        \<or> (\<exists>v. store e1 r a = Some v \<and> written_by look (x # items) r a v)"
      using deserialize_obj_store [OF d, of r a] Inr x by (fastforce simp: written_by_def)
    show ?thesis
    proof (cases r1)
      case (Inl err)
      with Cons.prems x Inr d have "e' = e1" by simp
      with head show ?thesis by simp
    next
      case (Inr u)
      with Cons.prems x \<open>look i = Inr j\<close> d have "load_items look items e1 = (res, e')" by simp
      from Cons.IH [OF this] head show ?thesis
        by (auto intro: written_by_Cons)
    qed
  qed
qed

lemma load_items_written:
  "load_items look items e = (Inr u, e') \<Longrightarrow> (item_id, tmpl) \<in> set items \<Longrightarrow>
   target tmpl = Indirect t \<Longrightarrow>
   \<exists>v. store e' (obj t) (attr t) = Some v \<and> written_by look items (obj t) (attr t) v"
proof (induction items arbitrary: e)
  case Nil
  then show ?case by simp
next
  case (Cons x items)
  obtain i tm where x: "x = (i, tm)" by (cases x)
  from Cons.prems(1) x obtain j where j: "look i = Inr j"
    by (cases "look i") auto
  from Cons.prems(1) x j obtain u1 e1 where d: "deserialize_obj tm i j e = (Inr u1, e1)"
    and rest: "load_items look items e1 = (Inr u, e')"
    by (cases "deserialize_obj tm i j e") (auto split: sum.splits)
  show ?case
  proof (cases "(item_id, tmpl) \<in> set items")
    case True
    from Cons.IH [OF rest True Cons.prems(3)] show ?thesis
      by (auto intro: written_by_Cons)
  next
    case False
    with Cons.prems(2) x have eq: "i = item_id" "tm = tmpl" by auto
    from deserialize_obj_target_ok [OF d] eq Cons.prems(3)
    obtain kwargs v where kw: "call_kwargs (default_kwargs tmpl) = Inr kwargs"
      and f: "factory t item_id j (default_args tmpl) kwargs = Inr v"
      and s: "store e1 (obj t) (attr t) = Some v" by blast
    have w: "written_by look (x # items) (obj t) (attr t) v"
      using kw f j eq x Cons.prems(3) by (force simp: written_by_def)
    from load_items_store [OF rest, of "obj t" "attr t"] s w show ?thesis
      by (auto intro: written_by_Cons)
  qed
qed

lemma deserialize_obj_none:
  "deserialize_obj tmpl item_id JNull e = (res, e') \<Longrightarrow>
   entities e' = entities e \<and> disk e' = disk e
   \<and> (\<exists>new. trace e' = trace e @ new
        \<and> (calls new = default_calls [(item_id, tmpl)] \<or> (calls new = [] \<and> res \<noteq> Inr ()))
        \<and> (res = Inr () \<longrightarrow> calls new = default_calls [(item_id, tmpl)]))"
  by (cases "target tmpl")
     (auto simp: deserialize_obj_def owner_set_def emit_def Let_def calls_def
       split: sum.splits if_splits)

lemma default_calls_append:
  "default_calls (xs @ ys) = default_calls xs @ default_calls ys"
  by (induction xs) (auto split: destination.splits)

lemma load_items_none:
  "load_items (\<lambda>item_id. Inr JNull) items e = (res, e') \<Longrightarrow>
   entities e' = entities e \<and> disk e' = disk e
   \<and> (\<exists>n new. n \<le> length items \<and> trace e' = trace e @ new
        \<and> calls new = default_calls (take n items)
        \<and> (res = Inr () \<longrightarrow> n = length items))"
proof (induction items arbitrary: e)
  case Nil
  then show ?case by (auto simp: calls_def)
next
  case (Cons x items)
  obtain i tm where x: "x = (i, tm)" by (cases x)
  obtain r1 e1 where d: "deserialize_obj tm i JNull e = (r1, e1)"
    by (cases "deserialize_obj tm i JNull e")
  from deserialize_obj_none [OF d] obtain new1 where
    ent1: "entities e1 = entities e" and disk1: "disk e1 = disk e"
    and tr1: "trace e1 = trace e @ new1"
    and c1: "calls new1 = default_calls [(i, tm)] \<or> (calls new1 = [] \<and> r1 \<noteq> Inr ())"
    and ok1: "r1 = Inr () \<longrightarrow> calls new1 = default_calls [(i, tm)]"
    by blast
  show ?case
  proof (cases r1)
    case (Inl err)
    with Cons.prems x d have e': "e' = e1" and res: "res = Inl err" by simp_all
    from c1 show ?thesis
    proof
      assume "calls new1 = default_calls [(i, tm)]"
      then have "calls new1 = default_calls (take 1 (x # items))" by (simp add: x)
      with e' res ent1 disk1 tr1 show ?thesis
        by (intro conjI exI [of _ 1] exI [of _ new1]) simp_all
    next
      assume "calls new1 = [] \<and> r1 \<noteq> Inr ()"
      then have "calls new1 = default_calls (take 0 (x # items))" by simp
      with e' res ent1 disk1 tr1 show ?thesis
        by (intro conjI exI [of _ 0] exI [of _ new1]) simp_all
    qed
  next
    case (Inr u)
    with Cons.prems x d have rest: "load_items (\<lambda>item_id. Inr JNull) items e1 = (res, e')"
      by simp
    from Cons.IH [OF rest] obtain n new where
      ent: "entities e' = entities e1" and dk: "disk e' = disk e1"
      and n: "n \<le> length items" and tr: "trace e' = trace e1 @ new"
      and c: "calls new = default_calls (take n items)"
      and ok: "res = Inr () \<longrightarrow> n = length items" by blast
    from ok1 Inr have h: "calls new1 = default_calls [(i, tm)]" by simp
    have "calls (new1 @ new) = default_calls (take (Suc n) (x # items))"
      using h c default_calls_append [of "[(i, tm)]" "take n items"]
      by (simp add: calls_def x)
    with ent dk n tr ok ent1 disk1 tr1 show ?thesis
      by (intro conjI exI [of _ "Suc n"] exI [of _ "new1 @ new"]) simp_all
  qed
qed


lemma default_calls_shape:
  "ev \<in> set (default_calls items) \<Longrightarrow> \<exists>r a i. ev = FactoryCall r a i JNull"
  by (induction items) (auto split: destination.splits)

lemma calls_shape:
  assumes "calls new = default_calls items"
  shows "(\<forall>a i j. ReconfigCall a i j \<notin> set new)
       \<and> (\<forall>r a i j. FactoryCall r a i j \<in> set new \<longrightarrow> j = JNull)"
proof -
  have shape: "\<exists>r a i. ev = FactoryCall r a i JNull" if "ev \<in> set new" "is_call ev" for ev
  proof -
    from that have "ev \<in> set (calls new)" by (simp add: calls_def)
    with assms show ?thesis by (simp add: default_calls_shape)
  qed
  show ?thesis
  proof (intro conjI allI impI)
    fix a i j
    show "ReconfigCall a i j \<notin> set new"
      using shape [of "ReconfigCall a i j"] by auto
  next
    fix r a i j
    assume "FactoryCall r a i j \<in> set new"
    with shape [of "FactoryCall r a i j"] show "j = JNull" by auto
  qed
qed

lemma mixed_manager_eq:
  "mixed_manager =
     \<lparr>file_templates =
        [(IdStr ''app'',
          \<lparr>file_path = Some ''app.json'', file_required = False,
           item_templates =
             [(IdStr ''mode'',
               \<lparr>target = Direct mode_item, default_args = [], default_kwargs = []\<rparr>),
              (IdStr ''volume'',
               \<lparr>target = Indirect (volume_target plain_factory), default_args = [],
                default_kwargs = []\<rparr>)]\<rparr>)],
      finalized = True\<rparr>"
  by (simp add: mixed_manager_def add_file_path_def add_items_def finalize_layout_def
      init_def setdefault_def new_file_template_def Let_def)

text \<open>
  C5. For a finalized manager, loading a registered file that is absent on disk and not
  required leaves every direct entity as it was and adds to the trace no reconfigure
  call and only factory calls with the JSON value \<^verbatim>\<open>None\<close>: the calls it makes are, in
  order, the factory calls with \<^verbatim>\<open>None\<close> of the items bound to a target, all of them
  when the load returns (up to the item whose call raised otherwise). When the load
  returns, the destination of every item bound to a target holds the default a factory
  bound to that destination built from \<^verbatim>\<open>None\<close>.
\<close>

theorem C5_missing_optional_file:
  assumes "finalized m"
      and "map_of (file_templates m) file_id = Some ft"
      and "file_path ft = Some path"
      and "disk e path = None"
      and "\<not> file_required ft"
  shows "entities (snd (load_config_file m file_id e)) = entities e
       \<and> (\<exists>n new. n \<le> length (item_templates ft)
            \<and> trace (snd (load_config_file m file_id e)) = trace e @ new
            \<and> calls new = default_calls (take n (item_templates ft))
            \<and> (\<forall>a i j. ReconfigCall a i j \<notin> set new)
            \<and> (\<forall>r a i j. FactoryCall r a i j \<in> set new \<longrightarrow> j = JNull)
            \<and> (fst (load_config_file m file_id e) = Inr () \<longrightarrow> n = length (item_templates ft)))
       \<and> (fst (load_config_file m file_id e) = Inr () \<longrightarrow>
            (\<forall>(item_id, tmpl) \<in> set (item_templates ft). \<forall>t. target tmpl = Indirect t \<longrightarrow>
               (\<exists>v. store (snd (load_config_file m file_id e)) (obj t) (attr t) = Some v
                  \<and> written_by (\<lambda>item_id. Inr JNull) (item_templates ft) (obj t) (attr t) v)))"
proof -
  obtain res e' where l: "load_items (\<lambda>item_id. Inr JNull) (item_templates ft) e = (res, e')"
    by (cases "load_items (\<lambda>item_id. Inr JNull) (item_templates ft) e")
  have eq: "load_config_file m file_id e = (res, e')"
    using assms l by (simp add: load_config_file_def internal_load_config_file_def)
  from load_items_none [OF l] obtain n new where
    ent: "entities e' = entities e"
    and n: "n \<le> length (item_templates ft)" and tr: "trace e' = trace e @ new"
    and c: "calls new = default_calls (take n (item_templates ft))"
    and ok: "res = Inr () \<longrightarrow> n = length (item_templates ft)" by blast
  have 1: "entities (snd (load_config_file m file_id e)) = entities e"
    using ent by (simp add: eq)
  have 2: "\<exists>n new. n \<le> length (item_templates ft)
            \<and> trace (snd (load_config_file m file_id e)) = trace e @ new
            \<and> calls new = default_calls (take n (item_templates ft))
            \<and> (\<forall>a i j. ReconfigCall a i j \<notin> set new)
            \<and> (\<forall>r a i j. FactoryCall r a i j \<in> set new \<longrightarrow> j = JNull)
            \<and> (fst (load_config_file m file_id e) = Inr () \<longrightarrow> n = length (item_templates ft))"
    using n tr c ok calls_shape [OF c]
    by (intro exI [of _ n] exI [of _ new]) (simp add: eq)
  have 3: "fst (load_config_file m file_id e) = Inr () \<longrightarrow>
            (\<forall>(item_id, tmpl) \<in> set (item_templates ft). \<forall>t. target tmpl = Indirect t \<longrightarrow>
               (\<exists>v. store (snd (load_config_file m file_id e)) (obj t) (attr t) = Some v
                  \<and> written_by (\<lambda>item_id. Inr JNull) (item_templates ft) (obj t) (attr t) v))"
  proof (intro impI ballI, clarify)
    fix item_id tmpl t
    assume "fst (load_config_file m file_id e) = Inr ()"
      and mem: "(item_id, tmpl) \<in> set (item_templates ft)" and t: "target tmpl = Indirect t"
    then have "load_items (\<lambda>item_id. Inr JNull) (item_templates ft) e = (Inr (), e')"
      using l by (simp add: eq)
    from load_items_written [OF this mem t]
    show "\<exists>v. store (snd (load_config_file m file_id e)) (obj t) (attr t) = Some v
            \<and> written_by (\<lambda>item_id. Inr JNull) (item_templates ft) (obj t) (attr t) v"
      by (simp add: eq)
  qed
  from 1 2 3 show ?thesis by blast
qed

theorem C5_missing_optional_file_witness:
  "fst (load_config_file mixed_manager (IdStr ''app'') empty_env) = Inr ()
   \<and> trace (snd (load_config_file mixed_manager (IdStr ''app'') empty_env))
       = [FactoryCall (DictRef 0) ''volume'' (IdStr ''volume'') JNull]
   \<and> store (snd (load_config_file mixed_manager (IdStr ''app'') empty_env)) (DictRef 0) ''volume''
       = Some (Plain (JInt 0))
   \<and> entities (snd (load_config_file mixed_manager (IdStr ''app'') empty_env))
       = entities empty_env"
proof -
  have r: "load_config_file mixed_manager (IdStr ''app'') empty_env
      = (Inr (), owner_set (DictRef 0) ''volume'' (Plain (JInt 0))
                   (emit (FactoryCall (DictRef 0) ''volume'' (IdStr ''volume'') JNull) empty_env))"
    by (simp add: mixed_manager_eq load_config_file_def internal_load_config_file_def
        deserialize_obj_def owner_get_def volume_target_def plain_factory_def empty_env_def
        owner_set_def emit_def)
  have h1: "finalized mixed_manager" by (simp add: mixed_manager_eq)
  have h2: "map_of (file_templates mixed_manager) (IdStr ''app'')
              = Some (snd (hd (file_templates mixed_manager)))"
    by (simp add: mixed_manager_eq)
  have h3: "file_path (snd (hd (file_templates mixed_manager))) = Some ''app.json''"
    by (simp add: mixed_manager_eq)
  have h4: "disk empty_env ''app.json'' = None" by (simp add: empty_env_def)
  have h5: "\<not> file_required (snd (hd (file_templates mixed_manager)))"
    by (simp add: mixed_manager_eq)
  show ?thesis
    using r C5_missing_optional_file [OF h1 h2 h3 h4 h5]
    by (simp add: empty_env_def owner_set_def emit_def)
qed

subsection \<open>Saving and loading again\<close>

lemma set_dict_set_subset: "set (dict_set k v d) \<subseteq> insert (k, v) (set d)"
  by (induction d) auto

lemma key_set_dict_set: "fst ` set (dict_set k v d) = insert k (fst ` set d)"
  by (induction d) auto

lemma add_items_loop_distinct:
  "distinct (map fst its) \<Longrightarrow> distinct (map fst (snd (add_items_loop f items its)))"
  by (induction items arbitrary: its) (auto simp: distinct_dict_set split: sum.splits)

lemma setdefault_mem:
  "setdefault d k v = (d', x) \<Longrightarrow> (set d' \<subseteq> insert (k, v) (set d)) \<and> (x = v \<or> (k, x) \<in> set d)"
  by (auto simp: setdefault_def split: option.splits dest: map_of_SomeD)

lemma items_distinct_add_file_path:
  assumes "items_distinct m"
  shows "items_distinct (snd (add_file_path m f p r))"
proof -
  obtain fts ft where sd: "setdefault (file_templates m) f new_file_template = (fts, ft)"
    by (cases "setdefault (file_templates m) f new_file_template")
  from setdefault_mem [OF sd] assms
  have sub: "\<forall>(k, x) \<in> set fts. distinct (map fst (item_templates x))"
    and ft: "distinct (map fst (item_templates ft))"
    by (auto simp: items_distinct_def list_all_iff new_file_template_def)
  have "\<forall>(k, x) \<in> set (dict_set f (ft\<lparr>file_path := Some p, file_required := r\<rparr>) fts).
          distinct (map fst (item_templates x))"
    using sub ft set_dict_set_subset [of f "ft\<lparr>file_path := Some p, file_required := r\<rparr>" fts]
    by auto
  with sub show ?thesis
    by (auto simp: add_file_path_def sd items_distinct_def list_all_iff Let_def)
qed

lemma items_distinct_add_items:
  assumes "items_distinct m"
  shows "items_distinct (snd (add_items m f items))"
proof -
  obtain fts ft where sd: "setdefault (file_templates m) f new_file_template = (fts, ft)"
    by (cases "setdefault (file_templates m) f new_file_template")
  from setdefault_mem [OF sd] assms
  have sub: "\<forall>(k, x) \<in> set fts. distinct (map fst (item_templates x))"
    and ft: "distinct (map fst (item_templates ft))"
    by (auto simp: items_distinct_def list_all_iff new_file_template_def)
  let ?its = "snd (add_items_loop f items (item_templates ft))"
  have "\<forall>(k, x) \<in> set (dict_set f (ft\<lparr>item_templates := ?its\<rparr>) fts).
          distinct (map fst (item_templates x))"
    using sub add_items_loop_distinct [OF ft, of f items]
      set_dict_set_subset [of f "ft\<lparr>item_templates := ?its\<rparr>" fts]
    by auto
  then show ?thesis
    by (auto simp: add_items_def sd items_distinct_def list_all_iff Let_def split: prod.splits)
qed

lemma reachable_items_distinct: "reachable m \<Longrightarrow> items_distinct m"
proof (induction rule: reachable.induct)
  case reach_init
  show ?case by (simp add: items_distinct_def init_def)
next
  case (reach_path m file_id path required)
  then show ?case by (simp add: items_distinct_add_file_path)
next
  case (reach_items m file_id items)
  then show ?case by (simp add: items_distinct_add_items)
next
  case (reach_finalize m)
  then show ?case by (auto simp: items_distinct_def finalize_layout_def Let_def)
qed

lemma serialize_items_other:
  "serialize_items items e acc = Inr r \<Longrightarrow> k \<notin> fst ` set items \<Longrightarrow> map_of r k = map_of acc k"
proof (induction items arbitrary: acc)
  case Nil
  then show ?case by simp
next
  case (Cons x items)
  obtain i tm where x: "x = (i, tm)" by (cases x)
  from Cons.prems(1) x obtain j where j: "serialize_obj tm i e = Inr j"
    and rest: "serialize_items items e (dict_set i j acc) = Inr r"
    by (auto split: sum.splits)
  from Cons.prems(2) x have "k \<notin> fst ` set items" "k \<noteq> i" by auto
  with Cons.IH [OF rest] show ?case by (simp add: map_of_dict_set)
qed

lemma serialize_items_keys:
  "serialize_items items e acc = Inr r \<Longrightarrow> fst ` set r = fst ` set acc \<union> fst ` set items"
proof (induction items arbitrary: acc)
  case Nil
  then show ?case by simp
next
  case (Cons x items)
  obtain i tm where x: "x = (i, tm)" by (cases x)
  from Cons.prems(1) x obtain j where j: "serialize_obj tm i e = Inr j"
    and rest: "serialize_items items e (dict_set i j acc) = Inr r"
    by (auto split: sum.splits)
  from Cons.IH [OF rest] x show ?case by (auto simp: key_set_dict_set)
qed

lemma serialize_items_distinct:
  "serialize_items items e acc = Inr r \<Longrightarrow> distinct (map fst acc) \<Longrightarrow> distinct (map fst r)"
proof (induction items arbitrary: acc)
  case Nil
  then show ?case by simp
next
  case (Cons x items)
  obtain i tm where x: "x = (i, tm)" by (cases x)
  from Cons.prems(1) x obtain j where j: "serialize_obj tm i e = Inr j"
    and rest: "serialize_items items e (dict_set i j acc) = Inr r"
    by (auto split: sum.splits)
  from Cons.IH [OF rest] Cons.prems(2) show ?case by (simp add: distinct_dict_set)
qed

lemma serialize_items_item:
  "serialize_items items e acc = Inr r \<Longrightarrow> distinct (map fst items) \<Longrightarrow>
   (item_id, tmpl) \<in> set items \<Longrightarrow>
   \<exists>j. serialize_obj tmpl item_id e = Inr j \<and> map_of r item_id = Some j"
proof (induction items arbitrary: acc)
  case Nil
  then show ?case by simp
next
  case (Cons x items)
  obtain i tm where x: "x = (i, tm)" by (cases x)
  from Cons.prems(1) x obtain j where j: "serialize_obj tm i e = Inr j"
    and rest: "serialize_items items e (dict_set i j acc) = Inr r"
    by (auto split: sum.splits)
  from Cons.prems(2) x have d: "distinct (map fst items)" and fresh: "i \<notin> fst ` set items"
    by auto
  show ?case
  proof (cases "(item_id, tmpl) \<in> set items")
    case True
    from Cons.IH [OF rest d True] show ?thesis .
  next
    case False
    with Cons.prems(3) x have eq: "item_id = i" "tmpl = tm" by auto
    from serialize_items_other [OF rest fresh] have "map_of r i = Some j"
      by (simp add: map_of_dict_set)
    with j eq show ?thesis by simp
  qed
qed

lemma dump_keys_lookup:
  "string_ids kvs \<Longrightarrow> distinct (map fst kvs) \<Longrightarrow>
   map_of (dump_keys kvs acc) s
     = (case map_of kvs (IdStr s) of Some v \<Rightarrow> Some v | None \<Rightarrow> map_of acc s)"
proof (induction kvs arbitrary: acc)
  case Nil
  then show ?case by simp
next
  case (Cons x kvs)
  obtain k v where x: "x = (k, v)" by (cases x)
  from Cons.prems(1) x obtain s0 where k: "k = IdStr s0" and rest: "string_ids kvs"
    by (cases k) (auto simp: string_ids_def)
  from Cons.prems(2) x k have d: "distinct (map fst kvs)" and fresh: "IdStr s0 \<notin> fst ` set kvs"
    by auto
  from fresh have none: "map_of kvs (IdStr s0) = None"
    by (simp add: map_of_eq_None_iff)
  from Cons.IH [OF rest d, of "dict_set s0 v acc"] x k none show ?case
    by (auto simp: map_of_dict_set split: option.splits)
qed


lemma string_ids_iff: "string_ids kvs \<longleftrightarrow> (\<forall>k \<in> fst ` set kvs. \<exists>s. k = IdStr s)"
  by (auto simp: string_ids_def list_all_iff split: ident.splits)

lemma id_equals_own: "id_equals (json_of_ident file_id) file_id"
  by (cases file_id) simp_all

lemma serialize_obj_target:
  "serialize_obj tmpl item_id e = Inr j \<Longrightarrow> target tmpl = Indirect t \<Longrightarrow>
   \<exists>ser. owner_get e (obj t) (attr t) = Serializable ser \<and> ser item_id = Inr j"
  by (auto simp: serialize_obj_def Let_def split: if_splits pyval.splits)

lemma internal_save_ok:
  "internal_save_config_file file_id ft e = (Inr u, e1) \<Longrightarrow>
   \<exists>json_items path. serialize_items (item_templates ft) e [] = Inr json_items
     \<and> file_path ft = Some path
     \<and> e1 = e\<lparr>disk := (disk e)(path \<mapsto> JsonFile (dumped_document file_id json_items))\<rparr>"
  by (auto simp: internal_save_config_file_def split: sum.splits option.splits)

lemma internal_load_saved:
  assumes "file_path ft = Some path"
      and "disk e1 path = Some (JsonFile (dumped_document file_id json_items))"
  shows "internal_load_config_file file_id ft e1
           = load_items (items_get (JObj (dump_keys json_items []))) (item_templates ft) e1"
  using assms
  by (simp add: internal_load_config_file_def dumped_document_def id_equals_own)

lemma saved_lookup:
  assumes ser: "serialize_items items e [] = Inr json_items"
      and ids: "string_ids items" and d: "distinct (map fst items)"
      and mem: "(item_id, tmpl) \<in> set items"
  shows "\<exists>j. serialize_obj tmpl item_id e = Inr j
           \<and> items_get (JObj (dump_keys json_items [])) item_id = Inr j"
proof -
  from serialize_items_item [OF ser d mem] obtain j where
    j: "serialize_obj tmpl item_id e = Inr j" and m: "map_of json_items item_id = Some j"
    by blast
  from ids mem obtain s where s: "item_id = IdStr s"
    by (force simp: string_ids_iff)
  have keys: "fst ` set json_items = fst ` set items"
    using serialize_items_keys [OF ser] by simp
  with ids have sj: "string_ids json_items" by (simp add: string_ids_iff)
  have dj: "distinct (map fst json_items)"
    using serialize_items_distinct [OF ser] by simp
  from dump_keys_lookup [OF sj dj, of "[]" s] m s
  have "map_of (dump_keys json_items []) s = Some j" by simp
  with j s show ?thesis by simp
qed

text \<open>
  C2, amended. For a finalized manager, in a state reachable by registration and
  finalisation calls, and a registered file whose item ids are all strings: if every
  factory rebuilds, from what the value at its destination serialises to, a value equal
  to it under the factory's equality, and saving the file and then loading it both
  return, then after the load the destination of every item bound to a target holds a
  value equal, under that equality, to the value that was there before the save.
\<close>

theorem C2_round_trip:
  assumes reach: "reachable m" and fin: "finalized m"
      and ft: "map_of (file_templates m) file_id = Some ft"
      and ids: "string_ids (item_templates ft)"
      and inv: "rebuilds_equal eqv e (item_templates ft)"
      and save: "save_config_file m file_id e = (Inr (), e1)"
      and load: "load_config_file m file_id e1 = (Inr (), e2)"
      and item: "(item_id, tmpl) \<in> set (item_templates ft)"
      and tgt: "target tmpl = Indirect t"
  shows "\<exists>v. store e2 (obj t) (attr t) = Some v \<and> eqv (owner_get e (obj t) (attr t)) v"
proof -
  let ?items = "item_templates ft"
  from ft have "(file_id, ft) \<in> set (file_templates m)" by (rule map_of_SomeD)
  with reachable_items_distinct [OF reach] have d: "distinct (map fst ?items)"
    by (auto simp: items_distinct_def list_all_iff)
  from save fin ft have "internal_save_config_file file_id ft e = (Inr (), e1)"
    by (simp add: save_config_file_def)
  from internal_save_ok [OF this] obtain json_items path where
    ser: "serialize_items ?items e [] = Inr json_items"
    and path: "file_path ft = Some path"
    and e1: "e1 = e\<lparr>disk := (disk e)(path \<mapsto> JsonFile (dumped_document file_id json_items))\<rparr>"
    by blast
  from e1 have dk: "disk e1 path = Some (JsonFile (dumped_document file_id json_items))"
    by simp
  let ?look = "items_get (JObj (dump_keys json_items []))"
  from load fin ft have "internal_load_config_file file_id ft e1 = (Inr (), e2)"
    by (simp add: load_config_file_def)
  then have l: "load_items ?look ?items e1 = (Inr (), e2)"
    by (simp add: internal_load_saved [OF path dk])
  from load_items_written [OF l item tgt] obtain v where
    v: "store e2 (obj t) (attr t) = Some v" and w: "written_by ?look ?items (obj t) (attr t) v"
    by blast
  from w obtain i' tm' t' j kwargs where
    mem': "(i', tm') \<in> set ?items" and t': "target tm' = Indirect t'"
    and slot: "obj t' = obj t" "attr t' = attr t"
    and look: "?look i' = Inr j"
    and kw: "call_kwargs (default_kwargs tm') = Inr kwargs"
    and f: "factory t' i' j (default_args tm') kwargs = Inr v"
    by (auto simp: written_by_def)
  from saved_lookup [OF ser ids d mem'] look have sj: "serialize_obj tm' i' e = Inr j"
    by auto
  from serialize_obj_target [OF sj t'] slot obtain ser' where
    own: "owner_get e (obj t) (attr t) = Serializable ser'" and sv: "ser' i' = Inr j"
    by auto
  from inv mem' t' own sv kw f slot have "eqv (Serializable ser') v"
    unfolding rebuilds_equal_def by fastforce
  with v own show ?thesis by simp
qed


lemma numbered_manager_eq:
  "numbered_manager =
     \<lparr>file_templates =
        [(IdStr ''app'',
          \<lparr>file_path = Some ''app.json'', file_required = False,
           item_templates =
             [(IdInt 1,
               \<lparr>target = Indirect (volume_target boxing_factory), default_args = [],
                default_kwargs = []\<rparr>)]\<rparr>)],
      finalized = True\<rparr>"
  by (simp add: numbered_manager_def add_file_path_def add_items_def finalize_layout_def
      init_def setdefault_def new_file_template_def Let_def)

lemma numbered_save:
  "save_config_file numbered_manager (IdStr ''app'') loud_env
     = (Inr (), write_file ''app.json''
                  (JObj [(''properties'', JObj [(''id'', JStr ''app'')]),
                         (''general_items'', JObj [(''1'', JInt 5)])]) loud_env)"
  by (simp add: numbered_manager_eq save_config_file_def internal_save_config_file_def
      serialize_obj_def owner_get_def owner_set_def loud_env_def empty_env_def boxed_def
      volume_target_def dumped_document_def write_file_def str_of_int_def)

lemma numbered_load:
  "load_config_file numbered_manager (IdStr ''app'')
     (write_file ''app.json''
        (JObj [(''properties'', JObj [(''id'', JStr ''app'')]),
               (''general_items'', JObj [(''1'', JInt 5)])]) loud_env)
   = (Inr (),
      owner_set (DictRef 0) ''volume'' (boxed (JInt 0))
        (emit (FactoryCall (DictRef 0) ''volume'' (IdInt 1) JNull)
          (emit (Warning (DictRef 0) ''volume'' (boxed (JInt 5)))
            (write_file ''app.json''
               (JObj [(''properties'', JObj [(''id'', JStr ''app'')]),
                      (''general_items'', JObj [(''1'', JInt 5)])]) loud_env))))"
  by (simp add: numbered_manager_eq load_config_file_def internal_load_config_file_def
      deserialize_obj_def owner_get_def owner_set_def loud_env_def empty_env_def boxed_def
      volume_target_def write_file_def emit_def boxing_factory_def Let_def)

lemma numbered_rebuilds:
  "rebuilds_equal (serializes_alike (IdInt 1)) loud_env
     (items_of numbered_manager (IdStr ''app''))"
  by (auto simp: rebuilds_equal_def numbered_manager_eq items_of_def volume_target_def
      boxing_factory_def boxed_def serializes_alike_def owner_get_def owner_set_def
      loud_env_def empty_env_def split: if_splits)

lemma stubborn_save:
  "save_config_file (scenario_manager default_only_factory ''app.json'') (IdStr ''app'') loud_env
     = (Inr (), write_file ''app.json'' (volume_document 5) loud_env)"
  by (simp add: scenario_manager_eq save_config_file_def internal_save_config_file_def
      serialize_obj_def owner_get_def owner_set_def loud_env_def empty_env_def boxed_def
      volume_target_def dumped_document_def write_file_def volume_document_def)

lemma stubborn_load:
  "load_config_file (scenario_manager default_only_factory ''app.json'') (IdStr ''app'')
     (write_file ''app.json'' (volume_document 5) loud_env)
   = (Inr (),
      owner_set (DictRef 0) ''volume'' (boxed (JInt 0))
        (emit (FactoryCall (DictRef 0) ''volume'' (IdStr ''volume'') (JInt 5))
          (emit (Warning (DictRef 0) ''volume'' (boxed (JInt 5)))
            (write_file ''app.json'' (volume_document 5) loud_env))))"
  by (simp add: scenario_manager_eq load_config_file_def internal_load_config_file_def
      deserialize_obj_def owner_get_def owner_set_def loud_env_def empty_env_def boxed_def
      volume_target_def write_file_def emit_def default_only_factory_def volume_document_def
      Let_def)

text \<open>
  C2, as stated, fails in two ways. An item registered under the integer id \<open>1\<close> is
  written under the key \<^verbatim>\<open>"1"\<close>, which \<^verbatim>\<open>file_items.get(1, None)\<close> does not find: the
  factory is given \<^verbatim>\<open>None\<close> and the instance of \<open>5\<close> comes back as the default, although
  the factory rebuilds an equal value from the serialised one. And a factory is free to
  ignore the JSON value: with the always-default factory the instance of \<open>5\<close> comes back
  as the default under the string id too.
\<close>

theorem C2_round_trip_counterexample:
  "fst (save_config_file numbered_manager (IdStr ''app'') loud_env) = Inr ()
   \<and> disk (snd (save_config_file numbered_manager (IdStr ''app'') loud_env)) ''app.json''
       = Some (JsonFile (JObj [(''properties'', JObj [(''id'', JStr ''app'')]),
                               (''general_items'', JObj [(''1'', JInt 5)])]))
   \<and> fst (load_config_file numbered_manager (IdStr ''app'')
            (snd (save_config_file numbered_manager (IdStr ''app'') loud_env))) = Inr ()
   \<and> rebuilds_equal (serializes_alike (IdInt 1)) loud_env
        (items_of numbered_manager (IdStr ''app''))
   \<and> owner_get loud_env (DictRef 0) ''volume'' = boxed (JInt 5)
   \<and> owner_get (snd (load_config_file numbered_manager (IdStr ''app'')
            (snd (save_config_file numbered_manager (IdStr ''app'') loud_env))))
        (DictRef 0) ''volume'' = boxed (JInt 0)
   \<and> \<not> serializes_alike (IdInt 1) (boxed (JInt 5)) (boxed (JInt 0))
   \<and> fst (save_config_file (scenario_manager default_only_factory ''app.json'') (IdStr ''app'')
            loud_env) = Inr ()
   \<and> fst (load_config_file (scenario_manager default_only_factory ''app.json'') (IdStr ''app'')
            (snd (save_config_file (scenario_manager default_only_factory ''app.json'')
                    (IdStr ''app'') loud_env))) = Inr ()
   \<and> owner_get (snd (load_config_file (scenario_manager default_only_factory ''app.json'')
            (IdStr ''app'')
            (snd (save_config_file (scenario_manager default_only_factory ''app.json'')
                    (IdStr ''app'') loud_env))))
        (DictRef 0) ''volume'' = boxed (JInt 0)
   \<and> \<not> serializes_alike (IdStr ''volume'') (boxed (JInt 5)) (boxed (JInt 0))"
  by (simp add: numbered_save numbered_load numbered_rebuilds stubborn_save stubborn_load)
     (simp add: write_file_def owner_set_def owner_get_def emit_def loud_env_def empty_env_def
        serializes_alike_def boxed_def)

lemma reachable_scenario_manager: "reachable (scenario_manager f p)"
  unfolding scenario_manager_def Let_def
  by (intro reach_finalize reach_items reach_path reach_init)

lemma boxing_save:
  "save_config_file (scenario_manager boxing_factory ''app.json'') (IdStr ''app'') loud_env
     = (Inr (), write_file ''app.json'' (volume_document 5) loud_env)"
  by (simp add: scenario_manager_eq save_config_file_def internal_save_config_file_def
      serialize_obj_def owner_get_def owner_set_def loud_env_def empty_env_def boxed_def
      volume_target_def dumped_document_def write_file_def volume_document_def)

lemma boxing_load:
  "load_config_file (scenario_manager boxing_factory ''app.json'') (IdStr ''app'')
     (write_file ''app.json'' (volume_document 5) loud_env)
   = (Inr (),
      owner_set (DictRef 0) ''volume'' (boxed (JInt 5))
        (emit (FactoryCall (DictRef 0) ''volume'' (IdStr ''volume'') (JInt 5))
          (emit (Warning (DictRef 0) ''volume'' (boxed (JInt 5)))
            (write_file ''app.json'' (volume_document 5) loud_env))))"
  by (simp add: scenario_manager_eq load_config_file_def internal_load_config_file_def
      deserialize_obj_def owner_get_def owner_set_def loud_env_def empty_env_def boxed_def
      volume_target_def write_file_def emit_def boxing_factory_def volume_document_def
      Let_def)

theorem C2_round_trip_witness:
  "fst (save_config_file (scenario_manager boxing_factory ''app.json'') (IdStr ''app'') loud_env)
     = Inr ()
   \<and> fst (load_config_file (scenario_manager boxing_factory ''app.json'') (IdStr ''app'')
            (snd (save_config_file (scenario_manager boxing_factory ''app.json'') (IdStr ''app'')
                    loud_env))) = Inr ()
   \<and> owner_get loud_env (DictRef 0) ''volume'' = boxed (JInt 5)
   \<and> (\<exists>v. store (snd (load_config_file (scenario_manager boxing_factory ''app.json'')
                 (IdStr ''app'')
                 (snd (save_config_file (scenario_manager boxing_factory ''app.json'')
                         (IdStr ''app'') loud_env)))) (DictRef 0) ''volume'' = Some v
          \<and> serializes_alike (IdStr ''volume'') (boxed (JInt 5)) v)"
proof -
  let ?m = "scenario_manager boxing_factory ''app.json''"
  let ?ft = "snd (hd (file_templates ?m))"
  let ?tmpl = "\<lparr>target = Indirect (volume_target boxing_factory), default_args = [],
                default_kwargs = []\<rparr> :: unit item_template"
  have fin: "finalized ?m" by (simp add: scenario_manager_eq)
  have ft: "map_of (file_templates ?m) (IdStr ''app'') = Some ?ft"
    by (simp add: scenario_manager_eq)
  have ids: "string_ids (item_templates ?ft)"
    by (simp add: scenario_manager_eq string_ids_def)
  have inv: "rebuilds_equal (serializes_alike (IdStr ''volume'')) loud_env (item_templates ?ft)"
    by (auto simp: rebuilds_equal_def scenario_manager_eq volume_target_def
        boxing_factory_def boxed_def serializes_alike_def owner_get_def owner_set_def
        loud_env_def empty_env_def split: if_splits)
  have item: "(IdStr ''volume'', ?tmpl) \<in> set (item_templates ?ft)"
    by (simp add: scenario_manager_eq)
  have tgt: "target ?tmpl = Indirect (volume_target boxing_factory)" by simp
  have own: "owner_get loud_env (DictRef 0) ''volume'' = boxed (JInt 5)"
    by (simp add: owner_get_def owner_set_def loud_env_def)
  have slot: "obj (volume_target boxing_factory) = DictRef 0"
    "attr (volume_target boxing_factory) = ''volume''"
    by (simp_all add: volume_target_def)
  show ?thesis
    using C2_round_trip [OF reachable_scenario_manager fin ft ids inv boxing_save boxing_load
        item tgt] own
    by (simp add: boxing_save boxing_load slot)
qed

end
